theory Spec2Isabelle
  imports Complex_Main "HOL-Library.Multiset" "HOL-Library.Log_Nat"
begin

section \<open>Shared vocabulary\<close>

text \<open>
  A JavaScript \<^verbatim>\<open>Date\<close> is modelled by its time value: the number of milliseconds since
  the epoch (\<^verbatim>\<open>getTime()\<close>), an integer.
\<close>

type_synonym date = int

definition msPerDay :: int where
  "msPerDay = 86400000"

text \<open>
  Errors that the handlers can meet. A rejected promise of the document store is a
  \<open>StoreError\<close>; the pre-save hook of the partner model raises \<open>CodeGenerationFailed\<close>
  (\<^verbatim>\<open>new Error('Unable to generate unique partner code')\<close>); the mapper rejects a
  document that fails the validators of its schema with a \<open>ValidationError\<close>, which
  carries the messages of the failed paths; a unique index rejects a second document
  with the same key with a \<open>DuplicateKey\<close> (error code 11000); \<^verbatim>\<open>toISOString\<close> raises a
  \<open>RangeError\<close> on an invalid date.
\<close>

datatype error =
    StoreError
  | CodeGenerationFailed
  | ValidationError "string list"
  | DuplicateKey
  | RangeError

section \<open>Characters and the referral-code pattern\<close>

definition lowers :: string where
  "lowers = ''abcdefghijklmnopqrstuvwxyz''"

definition uppers :: string where
  "uppers = ''ABCDEFGHIJKLMNOPQRSTUVWXYZ''"

definition digits :: string where
  "digits = ''0123456789''"

text \<open>The character class \<^verbatim>\<open>[a-zA-Z0-9]\<close>.\<close>

definition isAlnum :: "char \<Rightarrow> bool" where
  "isAlnum c = (c \<in> set (lowers @ uppers @ digits))"

text \<open>The character class \<^verbatim>\<open>[A-Z0-9]\<close>.\<close>

definition isUpperAlnum :: "char \<Rightarrow> bool" where
  "isUpperAlnum c = (c \<in> set (uppers @ digits))"

text \<open>
  \<^verbatim>\<open>String.prototype.toUpperCase\<close> on the ASCII letters; every other character of the
  8-bit \<open>char\<close> type is left as it is. (The code applies it to referral codes and to names
  from which everything outside \<^verbatim>\<open>[a-zA-Z0-9]\<close> was removed first.)
\<close>

definition toUpperCase_char :: "char \<Rightarrow> char" where
  "toUpperCase_char c = (case map_of (zip lowers uppers) c of Some u \<Rightarrow> u | None \<Rightarrow> c)"

definition toUpperCase :: "string \<Rightarrow> string" where
  "toUpperCase s = map toUpperCase_char s"

text \<open>The validator \<^verbatim>\<open>/^TWBFL-[A-Z0-9]{4,10}$/.test(v)\<close> of the partner schema.\<close>

definition matchesCodePattern :: "string \<Rightarrow> bool" where
  "matchesCodePattern v =
     (take 6 v = ''TWBFL-'' \<and> 4 \<le> length (drop 6 v) \<and> length (drop 6 v) \<le> 10 \<and>
      list_all isUpperAlnum (drop 6 v))"

section \<open>The partner model (models/Partner.js)\<close>

datatype partner_type = Affiliate | Influencer | Vendor

text \<open>
  A partner document. \<open>code\<close> is \<open>None\<close> while the document has no code yet (the
  pre-save hook fills it); \<open>totalLeads\<close>, \<open>totalTours\<close>, \<open>totalBookings\<close> and
  \<open>lastActivityAt\<close> are the \<^verbatim>\<open>stats\<close> sub-document. The counters start at 0 and are only
  ever incremented by one, so they are natural numbers.
\<close>

record partner =
  pid :: nat
  name :: string
  ptype :: partner_type
  email :: string
  code :: "string option"
  active :: bool
  totalLeads :: nat
  totalTours :: nat
  totalBookings :: nat
  lastActivityAt :: date

subsection \<open>The virtual \<^verbatim>\<open>conversionRate\<close>\<close>

text \<open>
  The getter returns the number 0, or the string that \<^verbatim>\<open>toFixed(2)\<close> makes, so its
  result is one of two kinds of JavaScript value.
\<close>

datatype js_value = JSNumber rat | JSString string

fun show_nat :: "nat \<Rightarrow> string" where
  "show_nat n = (if n < 10 then [digits ! n] else show_nat (n div 10) @ [digits ! (n mod 10)])"

declare show_nat.simps [simp del]

text \<open>
  The counters are JavaScript numbers: IEEE 754 binary64 values. The model keeps the
  exact value of a number as a rational and rounds after every operation, as the
  language does: to the nearest number with a significand of 53 bits, a tie going to
  the one whose significand is even. The exponent is not bounded in the model; the
  counters are integers below \<open>2 ^ 53\<close> (which a double holds exactly), so a quotient of
  two of them that is not 0 lies between \<open>2 ^ - 53\<close> and \<open>2 ^ 53\<close>, and neither it nor its
  hundredfold leaves the range of the normal numbers.
\<close>

text \<open>The exponent of a positive number: the \<open>k\<close> with \<open>2 ^ k \<le> x < 2 ^ (k + 1)\<close>.\<close>

definition ilog2 :: "rat \<Rightarrow> int" where
  "ilog2 x =
     (let (p, q) = quotient_of x; k = bitlen p - bitlen q
      in if 2 powi k \<le> x then k else k - 1)"

text \<open>The nearest integer, a tie going to the even one.\<close>

definition roundEven :: "rat \<Rightarrow> int" where
  "roundEven y =
     (let f = \<lfloor>y\<rfloor>; d = y - of_int f
      in if d < 1 / 2 then f else if 1 / 2 < d then f + 1 else if even f then f else f + 1)"

text \<open>The double nearest to a number that is not negative.\<close>

definition fround :: "rat \<Rightarrow> rat" where
  "fround x =
     (if x \<le> 0 then 0
      else let e = ilog2 x - 52 in of_int (roundEven (x / 2 powi e)) * 2 powi e)"

text \<open>
  \<^verbatim>\<open>Number.prototype.toFixed(2)\<close> for a number \<open>x\<close> with \<open>0 \<le> x < 10 ^ 21\<close>: ``let n be an
  integer for which n / 100 - x is as close to zero as possible; if there are two such n,
  pick the larger''; the result is the decimal digits of n with a point before the last
  two. The choice of n is made on the exact value of the double.
\<close>

definition toFixed2_hundredths :: "rat \<Rightarrow> nat" where
  "toFixed2_hundredths x = nat \<lfloor>x * 100 + 1 / 2\<rfloor>"

definition toFixed2 :: "rat \<Rightarrow> string" where
  "toFixed2 x =
     (let n = toFixed2_hundredths x
      in show_nat (n div 100) @ ''.'' @ [digits ! (n mod 100 div 10), digits ! (n mod 10)])"

text \<open>
  \<^verbatim>\<open>
  if (this.stats.totalLeads === 0) return 0;
  return ((this.stats.totalBookings / this.stats.totalLeads) * 100).toFixed(2);
  \<close>
  The division is rounded, and then the product.
\<close>

definition conversionRate :: "partner \<Rightarrow> js_value" where
  "conversionRate p =
     (if totalLeads p = 0 then JSNumber 0
      else JSString (toFixed2
             (fround (fround (of_nat (totalBookings p) / of_nat (totalLeads p)) * 100))))"

subsection \<open>\<^verbatim>\<open>updateStats\<close> and \<^verbatim>\<open>findByCode\<close>\<close>

datatype stat_kind = Lead | Tour | Booking

text \<open>
  The in-memory part of \<^verbatim>\<open>partnerSchema.methods.updateStats\<close>: the switch over the kind
  and the new activity time.
\<close>

definition bumpStats :: "stat_kind \<Rightarrow> date \<Rightarrow> partner \<Rightarrow> partner" where
  "bumpStats kind now p =
     (case kind of
        Lead \<Rightarrow> p\<lparr>totalLeads := totalLeads p + 1\<rparr>
      | Tour \<Rightarrow> p\<lparr>totalTours := totalTours p + 1\<rparr>
      | Booking \<Rightarrow> p\<lparr>totalBookings := totalBookings p + 1\<rparr>)
     \<lparr>lastActivityAt := now\<rparr>"

section \<open>The document store and its failures\<close>

text \<open>
  Every call of the document store is awaited and may reject. Whether it does is not
  decided by the program, so each handler takes an environment that says which kind of
  call rejects during this request, what the clock reads (\<^verbatim>\<open>new Date()\<close>), and the
  offset of the server's local time from UTC in milliseconds (taken as fixed: no
  daylight-saving change).
\<close>

record env =
  now :: date
  partnerFindFails :: bool
  partnerSaveFails :: bool
  contactFindFails :: bool
  contactWriteFails :: bool
  analyticsReadFails :: bool
  analyticsWriteFails :: bool
  statsWriteFails :: bool
  tzOffset :: int

section \<open>The contact model (models/Contact.js)\<close>

datatype contact_status = New | Read | Replied | Archived

record utm =
  utm_source :: "string option"
  utm_medium :: "string option"
  utm_campaign :: "string option"
  utm_content :: "string option"
  utm_term :: "string option"

text \<open>
  A contact document (a lead). \<open>cname\<close>, \<open>cemail\<close>, \<open>cipAddress\<close>, \<open>cuserAgent\<close> and
  \<open>ccreatedAt\<close> are the schema's \<^verbatim>\<open>name\<close>, \<^verbatim>\<open>email\<close>, \<^verbatim>\<open>ipAddress\<close>, \<^verbatim>\<open>userAgent\<close> and
  \<^verbatim>\<open>createdAt\<close>, renamed apart from the fields of the other documents. The timestamp
  \<^verbatim>\<open>updatedAt\<close> that the mapper maintains is left out.
\<close>

record contact =
  cid :: nat
  cname :: string
  cemail :: string
  phone :: "string option"
  address :: "string option"
  message :: string
  status :: contact_status
  cipAddress :: "string option"
  cuserAgent :: "string option"
  eventType :: string
  eventDate :: "date option"
  guestCount :: "int option"
  budget :: string
  refSource :: "partner_type option"
  refCode :: "string option"
  utm :: utm
  leadScore :: nat
  tourScheduled :: bool
  tourDate :: "date option"
  booked :: bool
  bookingDate :: "date option"
  bookingAmount :: "rat option"
  ccreatedAt :: date

section \<open>The database\<close>

record db =
  partners :: "partner list"
  contacts :: "contact list"

text \<open>JavaScript truthiness of a value that is a string, \<^verbatim>\<open>null\<close> or \<^verbatim>\<open>undefined\<close>.\<close>

definition truthy :: "string option \<Rightarrow> bool" where
  "truthy v = (case v of None \<Rightarrow> False | Some s \<Rightarrow> s \<noteq> [])"

text \<open>
  \<^verbatim>\<open>
  partnerSchema.statics.findByCode = function(code) {
    return this.findOne({ code: code.toUpperCase(), active: true });
  };
  \<close>
\<close>

definition findByCode :: "env \<Rightarrow> string \<Rightarrow> db \<Rightarrow> error + partner option" where
  "findByCode e c d =
     (if partnerFindFails e then Inl StoreError
      else Inr (find (\<lambda>p. code p = Some (toUpperCase c) \<and> active p) (partners d)))"

text \<open>\<^verbatim>\<open>document.save()\<close> of a partner that is in the store: the document with its id is replaced.\<close>

definition savePartner :: "env \<Rightarrow> partner \<Rightarrow> db \<Rightarrow> error + db" where
  "savePartner e p d =
     (if partnerSaveFails e then Inl StoreError
      else Inr (d\<lparr>partners := map (\<lambda>q. if pid q = pid p then p else q) (partners d)\<rparr>))"

text \<open>
  \<^verbatim>\<open>
  partnerSchema.methods.updateStats = async function(type) {
    switch (type) { case 'lead': this.stats.totalLeads += 1; break; ... }
    this.stats.lastActivityAt = new Date();
    await this.save();
  };
  \<close>
\<close>

definition updateStats :: "env \<Rightarrow> stat_kind \<Rightarrow> partner \<Rightarrow> db \<Rightarrow> error + db" where
  "updateStats e kind p d = savePartner e (bumpStats kind (now e) p) d"

definition findById :: "env \<Rightarrow> nat \<Rightarrow> db \<Rightarrow> error + contact option" where
  "findById e i d =
     (if contactFindFails e then Inl StoreError
      else Inr (find (\<lambda>c. cid c = i) (contacts d)))"

definition saveContact :: "env \<Rightarrow> contact \<Rightarrow> db \<Rightarrow> error + db" where
  "saveContact e c d =
     (if contactWriteFails e then Inl StoreError
      else Inr (d\<lparr>contacts := map (\<lambda>q. if cid q = cid c then c else q) (contacts d)\<rparr>))"

text \<open>An id that no stored contact has.\<close>

definition freshId :: "contact list \<Rightarrow> nat" where
  "freshId cs = Suc (fold max (map cid cs) 0)"

text \<open>
  \<^verbatim>\<open>Contact.create(contactData)\<close>: the schema's defaults are filled in, the document gets
  an id and its creation time, and is inserted. A rejection (of the schema's validators
  or of the store) is \<open>contactWriteFails\<close>.
\<close>

definition newContact :: "env \<Rightarrow> contact \<Rightarrow> db \<Rightarrow> contact" where
  "newContact e c d = c\<lparr>cid := freshId (contacts d), ccreatedAt := now e\<rparr>"

definition createContact :: "env \<Rightarrow> contact \<Rightarrow> db \<Rightarrow> error + contact \<times> db" where
  "createContact e c d =
     (if contactWriteFails e then Inl StoreError
      else let c' = newContact e c d
           in Inr (c', d\<lparr>contacts := contacts d @ [c']\<rparr>))"

section \<open>The contact controller (controllers/contactController.js)\<close>

text \<open>
  What a handler does with the request: it sends a JSON response with a status code, or
  hands an error to \<^verbatim>\<open>next\<close>.
\<close>

datatype 'a response = Json nat 'a | Next error

datatype contact_body =
    ValidationFailed "string list"
  | Failure string
  | Submitted nat date
  | ContactData contact

subsection \<open>\<^verbatim>\<open>submitContactForm\<close>\<close>

text \<open>
  The request: \<open>errors\<close> is what \<^verbatim>\<open>validationResult(req)\<close> holds after the route's
  validators ran; the other fields are \<^verbatim>\<open>req.body\<close>, \<^verbatim>\<open>req.ip\<close> and the User-Agent header.
  Dates and numbers are taken as parsed.
\<close>

record contact_req =
  errors :: "string list"
  r_name :: string
  r_email :: string
  r_phone :: "string option"
  r_address :: "string option"
  r_message :: string
  r_eventType :: "string option"
  r_eventDate :: "date option"
  r_guestCount :: "int option"
  r_budget :: "string option"
  r_refCode :: "string option"
  r_utmSource :: "string option"
  r_utmMedium :: "string option"
  r_utmCampaign :: "string option"
  r_utmContent :: "string option"
  r_utmTerm :: "string option"
  r_ip :: "string option"
  r_userAgent :: "string option"

text \<open>\<^verbatim>\<open>x || dflt\<close> for a string \<open>x\<close> that may be absent or empty.\<close>

definition orElse :: "string option \<Rightarrow> string \<Rightarrow> string" where
  "orElse v dflt = (case v of None \<Rightarrow> dflt | Some s \<Rightarrow> if s = [] then dflt else s)"

text \<open>\<^verbatim>\<open>x || null\<close>.\<close>

definition orNull :: "string option \<Rightarrow> string option" where
  "orNull v = (if truthy v then v else None)"

text \<open>
  \<^verbatim>\<open>
  let refSource = null;
  if (refCode) {
    try {
      const partner = await Partner.findByCode(refCode);
      if (partner) { refSource = partner.type; await partner.updateStats('lead'); }
    } catch (error) { console.error(...); }
  }
  \<close>
  The result is \<open>refSource\<close> and the store after the block. A rejection of
  \<^verbatim>\<open>updateStats\<close> is caught after \<open>refSource\<close> was assigned.
\<close>

definition resolveReferral :: "env \<Rightarrow> string option \<Rightarrow> db \<Rightarrow> partner_type option \<times> db" where
  "resolveReferral e rc d =
     (case rc of
        None \<Rightarrow> (None, d)
      | Some c \<Rightarrow>
          if c = [] then (None, d)
          else (case findByCode e c d of
                  Inl err \<Rightarrow> (None, d)
                | Inr None \<Rightarrow> (None, d)
                | Inr (Some p) \<Rightarrow>
                    (Some (ptype p),
                     (case updateStats e Lead p d of Inl err \<Rightarrow> d | Inr d' \<Rightarrow> d'))))"

definition contactData :: "contact_req \<Rightarrow> partner_type option \<Rightarrow> contact" where
  "contactData r rs =
     \<lparr>cid = 0,
      cname = r_name r,
      cemail = r_email r,
      phone = r_phone r,
      address = r_address r,
      message = r_message r,
      status = New,
      cipAddress = r_ip r,
      cuserAgent = r_userAgent r,
      eventType = orElse (r_eventType r) ''other'',
      eventDate = r_eventDate r,
      guestCount = (case r_guestCount r of None \<Rightarrow> None
                    | Some n \<Rightarrow> if n = 0 then None else Some n),
      budget = orElse (r_budget r) ''not-specified'',
      refSource = rs,
      refCode = (if truthy (r_refCode r) then map_option toUpperCase (r_refCode r) else None),
      utm = \<lparr>utm_source = orNull (r_utmSource r), utm_medium = orNull (r_utmMedium r),
             utm_campaign = orNull (r_utmCampaign r), utm_content = orNull (r_utmContent r),
             utm_term = orNull (r_utmTerm r)\<rparr>,
      leadScore = 50,
      tourScheduled = False,
      tourDate = None,
      booked = False,
      bookingDate = None,
      bookingAmount = None,
      ccreatedAt = 0\<rparr>"

text \<open>
  The handler. The two e-mails are sent without being awaited and their rejection is
  caught and logged, so they have no part in the response or in the store and are not
  modelled.
\<close>

definition submitContactForm :: "env \<Rightarrow> contact_req \<Rightarrow> db \<Rightarrow> contact_body response \<times> db" where
  "submitContactForm e r d =
     (if errors r \<noteq> [] then (Json 400 (ValidationFailed (errors r)), d)
      else
        let (rs, d1) = resolveReferral e (r_refCode r) d
        in (case createContact e (contactData r rs) d1 of
              Inl err \<Rightarrow> (Next err, d1)
            | Inr (c, d2) \<Rightarrow> (Json 201 (Submitted (cid c) (ccreatedAt c)), d2)))"

subsection \<open>\<^verbatim>\<open>getContactSubmission\<close>\<close>

text \<open>
  \<^verbatim>\<open>
  const contact = await Contact.findById(req.params.id);
  if (!contact) return res.status(404).json(...);
  if (contact.status === 'new') { contact.status = 'read'; await contact.save(); }
  res.status(200).json({ status: 'success', data: { contact } });
  \<close>
\<close>

definition getContactSubmission :: "env \<Rightarrow> nat \<Rightarrow> db \<Rightarrow> contact_body response \<times> db" where
  "getContactSubmission e i d =
     (case findById e i d of
        Inl err \<Rightarrow> (Next err, d)
      | Inr None \<Rightarrow> (Json 404 (Failure ''Contact submission not found''), d)
      | Inr (Some c) \<Rightarrow>
          if status c = New then
            (let c' = c\<lparr>status := Read\<rparr>
             in case saveContact e c' d of
                  Inl err \<Rightarrow> (Next err, d)
                | Inr d' \<Rightarrow> (Json 200 (ContactData c'), d'))
          else (Json 200 (ContactData c), d))"

subsection \<open>\<^verbatim>\<open>updateContactLeadStatus\<close>\<close>

text \<open>
  The body of the funnel update. A flag that is \<^verbatim>\<open>undefined\<close> is \<open>None\<close>; a flag that is
  given is a JSON boolean. Dates and the amount are taken as parsed; an amount of 0 is
  falsy.
\<close>

record lead_req =
  q_tourScheduled :: "bool option"
  q_tourDate :: "date option"
  q_booked :: "bool option"
  q_bookingDate :: "date option"
  q_bookingAmount :: "rat option"

text \<open>
  \<^verbatim>\<open>
  try {
    const partner = await Partner.findByCode(contact.refCode);
    if (partner) { await partner.updateStats(kind); }
  } catch (error) { console.error(...); }
  \<close>
\<close>

definition recordPartnerEvent :: "env \<Rightarrow> stat_kind \<Rightarrow> string \<Rightarrow> db \<Rightarrow> db" where
  "recordPartnerEvent e kind c d =
     (case findByCode e c d of
        Inl err \<Rightarrow> d
      | Inr None \<Rightarrow> d
      | Inr (Some p) \<Rightarrow> (case updateStats e kind p d of Inl err \<Rightarrow> d | Inr d' \<Rightarrow> d'))"

text \<open>
  \<^verbatim>\<open>
  if (tourScheduled !== undefined) {
    contact.tourScheduled = tourScheduled;
    if (tourDate) { contact.tourDate = new Date(tourDate); }
    // Update partner stats if this is a new tour
    if (tourScheduled && !contact.tourScheduled && contact.refCode) { ... }
  }
  \<close>
  The assignment comes first, as in the source: the condition reads the flag of the
  contact after it was overwritten.
\<close>

definition updateTour :: "env \<Rightarrow> lead_req \<Rightarrow> contact \<Rightarrow> db \<Rightarrow> contact \<times> db" where
  "updateTour e r c d =
     (case q_tourScheduled r of
        None \<Rightarrow> (c, d)
      | Some ts \<Rightarrow>
          let c1 = c\<lparr>tourScheduled := ts\<rparr>;
              c2 = (case q_tourDate r of None \<Rightarrow> c1 | Some t \<Rightarrow> c1\<lparr>tourDate := Some t\<rparr>)
          in if ts \<and> \<not> tourScheduled c2 \<and> truthy (refCode c2)
             then (c2, recordPartnerEvent e Tour (case refCode c2 of Some s \<Rightarrow> s | None \<Rightarrow> []) d)
             else (c2, d))"

text \<open>
  \<^verbatim>\<open>
  if (booked !== undefined) {
    contact.booked = booked;
    if (bookingDate) { contact.bookingDate = new Date(bookingDate); }
    if (bookingAmount) { contact.bookingAmount = parseFloat(bookingAmount); }
    // Update partner stats if this is a new booking
    if (booked && !contact.booked && contact.refCode) { ... }
  }
  \<close>
\<close>

definition updateBooking :: "env \<Rightarrow> lead_req \<Rightarrow> contact \<Rightarrow> db \<Rightarrow> contact \<times> db" where
  "updateBooking e r c d =
     (case q_booked r of
        None \<Rightarrow> (c, d)
      | Some b \<Rightarrow>
          let c1 = c\<lparr>booked := b\<rparr>;
              c2 = (case q_bookingDate r of None \<Rightarrow> c1 | Some t \<Rightarrow> c1\<lparr>bookingDate := Some t\<rparr>);
              c3 = (case q_bookingAmount r of
                      None \<Rightarrow> c2
                    | Some a \<Rightarrow> if a = 0 then c2 else c2\<lparr>bookingAmount := Some a\<rparr>)
          in if b \<and> \<not> booked c3 \<and> truthy (refCode c3)
             then (c3, recordPartnerEvent e Booking (case refCode c3 of Some s \<Rightarrow> s | None \<Rightarrow> []) d)
             else (c3, d))"

definition updateContactLeadStatus ::
  "env \<Rightarrow> nat \<Rightarrow> lead_req \<Rightarrow> db \<Rightarrow> contact_body response \<times> db" where
  "updateContactLeadStatus e i r d =
     (case findById e i d of
        Inl err \<Rightarrow> (Next err, d)
      | Inr None \<Rightarrow> (Json 404 (Failure ''Contact submission not found''), d)
      | Inr (Some c) \<Rightarrow>
          let (c1, d1) = updateTour e r c d;
              (c2, d2) = updateBooking e r c1 d1
          in (case saveContact e c2 d2 of
                Inl err \<Rightarrow> (Next err, d2)
              | Inr d3 \<Rightarrow> (Json 200 (ContactData c2), d3)))"

section \<open>The analytics model (models/Analytics.js)\<close>

datatype event_type = PageView | ContactForm | GalleryView | ReviewSubmission | AdminLogin

text \<open>
  An event of the log. \<open>None\<close> stands for a field that is absent or \<^verbatim>\<open>null\<close>. The fields
  \<^verbatim>\<open>userId\<close> and \<^verbatim>\<open>metadata\<close>, which none of the functions below reads, are left out.
\<close>

record event =
  createdAt :: date
  etype :: event_type
  page :: "string option"
  userAgent :: "string option"
  ipAddress :: "string option"
  referrer :: "string option"
  sessionId :: "string option"

subsection \<open>\<^verbatim>\<open>Analytics.trackPageView\<close>\<close>

record track_req =
  t_page :: "string option"
  t_referrer :: "string option"
  t_sessionId :: "string option"
  t_userAgent :: "string option"
  t_ip :: "string option"

definition pageViewEvent :: "env \<Rightarrow> track_req \<Rightarrow> event" where
  "pageViewEvent e r =
     \<lparr>createdAt = now e, etype = PageView, page = t_page r, userAgent = t_userAgent r,
      ipAddress = t_ip r, referrer = t_referrer r, sessionId = t_sessionId r\<rparr>"

text \<open>
  \<^verbatim>\<open>
  analyticsSchema.statics.trackPageView = async function(data) {
    return this.create({ type: 'page_view', page: data.page, ... });
  };
  \<close>
  The result is the log after the write, or the rejection.
\<close>

definition Analytics_trackPageView :: "env \<Rightarrow> track_req \<Rightarrow> event list \<Rightarrow> error + event list" where
  "Analytics_trackPageView e r evs =
     (if analyticsWriteFails e then Inl StoreError else Inr (evs @ [pageViewEvent e r]))"

subsection \<open>Grouping with a count\<close>

text \<open>
  The aggregation stage \<^verbatim>\<open>{ $group: { _id: key, count: { $sum: 1 } } }\<close>: one row per
  distinct key, with the number of documents that have it. The rows are kept in the
  order in which their keys first occur (the store does not promise an order).
\<close>

fun bump :: "'k \<Rightarrow> ('k \<times> nat) list \<Rightarrow> ('k \<times> nat) list" where
  "bump k [] = [(k, 1)]"
| "bump k ((k', c) # rows) = (if k = k' then (k', c + 1) # rows else (k', c) # bump k rows)"

definition groupCount :: "'k list \<Rightarrow> ('k \<times> nat) list" where
  "groupCount ks = foldl (\<lambda>rows k. bump k rows) [] ks"

subsection \<open>\<^verbatim>\<open>SiteStats.updateDailyStats\<close>\<close>

text \<open>
  \<^verbatim>\<open>startOfDay.setHours(0, 0, 0, 0)\<close> and \<^verbatim>\<open>endOfDay.setHours(23, 59, 59, 999)\<close>, in the
  server's local time.
\<close>

definition startOfDay :: "env \<Rightarrow> date \<Rightarrow> date" where
  "startOfDay e t = t - (t + tzOffset e) mod msPerDay"

definition endOfDay :: "env \<Rightarrow> date \<Rightarrow> date" where
  "endOfDay e t = startOfDay e t + (msPerDay - 1)"

text \<open>
  The object \<^verbatim>\<open>statsUpdate\<close>. \<^verbatim>\<open>pageViews.byPage\<close> is an object used as a dictionary from
  page names to counts.
\<close>

record stats_update =
  sdate :: date
  visitors_unique :: nat
  visitors_total :: nat
  pageViews_total :: nat
  pageViews_byPage :: "string \<rightharpoonup> nat"
  contactForms :: nat
  galleryViews :: nat
  reviews :: nat

type_synonym group_key = "event_type \<times> string option \<times> string option"

definition groupKey :: "event \<Rightarrow> group_key" where
  "groupKey ev = (etype ev, page ev, ipAddress ev)"

text \<open>\<^verbatim>\<open>if (item._id.ip) uniqueIPs.add(item._id.ip)\<close>, the set kept in insertion order.\<close>

definition addIP :: "string option \<Rightarrow> string list \<Rightarrow> string list" where
  "addIP ip ips =
     (case ip of
        None \<Rightarrow> ips
      | Some a \<Rightarrow> if a = [] then ips else if a \<in> set ips then ips else ips @ [a])"

text \<open>
  \<^verbatim>\<open>page.replace('/', '')\<close>: with a string as the pattern, only the first occurrence is
  replaced, wherever it stands.
\<close>

fun removeFirstSlash :: "string \<Rightarrow> string" where
  "removeFirstSlash [] = []"
| "removeFirstSlash (c # cs) = (if c = CHR ''/'' then cs else c # removeFirstSlash cs)"

text \<open>\<^verbatim>\<open>item._id.page.replace('/', '') || 'home'\<close>\<close>

definition pageName :: "string \<Rightarrow> string" where
  "pageName p = (let n = removeFirstSlash p in if n = [] then ''home'' else n)"

text \<open>
  \<^verbatim>\<open>byPage[pageName] = (byPage[pageName] || 0) + count\<close>, where \<^verbatim>\<open>byPage\<close> starts as the
  object literal \<^verbatim>\<open>{}\<close>. The map \<open>pageViews_byPage\<close> holds the properties of \<^verbatim>\<open>byPage\<close>
  whose value is a number. For a name that an object inherits from \<^verbatim>\<open>Object.prototype\<close>,
  \<^verbatim>\<open>byPage[pageName]\<close> is the inherited function (the prototype itself for
  \<^verbatim>\<open>__proto__\<close>), which is truthy, so the sum is a string concatenation: the property
  then holds a string and keeps holding one (for \<^verbatim>\<open>__proto__\<close> the assignment is
  ignored). Such a name never gets a count.
\<close>

definition objectPrototypeKeys :: "string list" where
  "objectPrototypeKeys =
     [''constructor'', ''__defineGetter__'', ''__defineSetter__'', ''hasOwnProperty'',
      ''__lookupGetter__'', ''__lookupSetter__'', ''isPrototypeOf'',
      ''propertyIsEnumerable'', ''toString'', ''valueOf'', ''__proto__'',
      ''toLocaleString'']"

definition addToPage :: "string \<Rightarrow> nat \<Rightarrow> (string \<rightharpoonup> nat) \<Rightarrow> (string \<rightharpoonup> nat)" where
  "addToPage n c m =
     (if n \<in> set objectPrototypeKeys then m
      else m(n \<mapsto> (case m n of None \<Rightarrow> 0 | Some v \<Rightarrow> v) + c))"

text \<open>
  One round of \<^verbatim>\<open>dailyData.forEach\<close>: the set of addresses and the statistics so far, and
  the row \<^verbatim>\<open>item\<close>.
  \<^verbatim>\<open>
  if (item._id.ip) uniqueIPs.add(item._id.ip);
  switch (item._id.type) {
    case 'page_view':
      statsUpdate.pageViews.total += item.count;
      if (item._id.page) {
        const pageName = item._id.page.replace('/', '') || 'home';
        statsUpdate.pageViews.byPage[pageName] = (... || 0) + item.count;
      }
      break;
    case 'contact_form': statsUpdate.contactForms += item.count; break;
    case 'gallery_view': statsUpdate.galleryViews += item.count; break;
    case 'review_submission': statsUpdate.reviews += item.count; break;
  }
  \<close>
\<close>

definition tally :: "string list \<times> stats_update \<Rightarrow> group_key \<times> nat \<Rightarrow> string list \<times> stats_update" where
  "tally acc item =
     (case acc of (ips, s) \<Rightarrow>
      case item of ((ty, pg, ip), n) \<Rightarrow>
        (addIP ip ips,
         (case ty of
            PageView \<Rightarrow>
              (let s1 = s\<lparr>pageViews_total := pageViews_total s + n\<rparr>
               in case pg of
                    None \<Rightarrow> s1
                  | Some p \<Rightarrow>
                      if p = [] then s1
                      else s1\<lparr>pageViews_byPage := addToPage (pageName p) n (pageViews_byPage s1)\<rparr>)
          | ContactForm \<Rightarrow> s\<lparr>contactForms := contactForms s + n\<rparr>
          | GalleryView \<Rightarrow> s\<lparr>galleryViews := galleryViews s + n\<rparr>
          | ReviewSubmission \<Rightarrow> s\<lparr>reviews := reviews s + n\<rparr>
          | AdminLogin \<Rightarrow> s)))"

text \<open>The stage \<^verbatim>\<open>{ $match: { createdAt: { $gte: startOfDay, $lte: endOfDay } } }\<close>.\<close>

definition dayEvents :: "env \<Rightarrow> date \<Rightarrow> event list \<Rightarrow> event list" where
  "dayEvents e t evs =
     filter (\<lambda>ev. startOfDay e t \<le> createdAt ev \<and> createdAt ev \<le> endOfDay e t) evs"

text \<open>The rows \<^verbatim>\<open>dailyData\<close>: the events of the day, grouped by type, page and address.\<close>

definition dailyData :: "env \<Rightarrow> date \<Rightarrow> event list \<Rightarrow> (group_key \<times> nat) list" where
  "dailyData e t evs = groupCount (map groupKey (dayEvents e t evs))"

definition emptyStats :: "date \<Rightarrow> stats_update" where
  "emptyStats t =
     \<lparr>sdate = t, visitors_unique = 0, visitors_total = 0, pageViews_total = 0,
      pageViews_byPage = Map.empty, contactForms = 0, galleryViews = 0, reviews = 0\<rparr>"

text \<open>The object \<^verbatim>\<open>statsUpdate\<close> as it is handed to \<^verbatim>\<open>findOneAndUpdate\<close>.\<close>

definition statsUpdate :: "env \<Rightarrow> date \<Rightarrow> event list \<Rightarrow> stats_update" where
  "statsUpdate e t evs =
     (let rows = dailyData e t evs;
          (ips, s) = foldl tally ([], emptyStats (startOfDay e t)) rows
      in s\<lparr>visitors_unique := length ips, visitors_total := length rows\<rparr>)"

text \<open>
  The schema of the stored statistics gives \<^verbatim>\<open>pageViews.byPage\<close> seven fixed paths, each a
  number with the default 0:
  \<^verbatim>\<open>
  byPage: { home: { type: Number, default: 0 }, about: ..., gallery: ..., videos: ...,
            contact: ..., licenses: ..., associations: ... }
  \<close>
\<close>

record page_counts =
  pg_home :: nat
  pg_about :: nat
  pg_gallery :: nat
  pg_videos :: nat
  pg_contact :: nat
  pg_licenses :: nat
  pg_associations :: nat

definition schemaPages :: "string list" where
  "schemaPages =
     [''home'', ''about'', ''gallery'', ''videos'', ''contact'', ''licenses'', ''associations'']"

text \<open>\<^verbatim>\<open>doc.pageViews.byPage[p]\<close> of a document: a count for the seven paths, nothing else.\<close>

definition bucket :: "string \<Rightarrow> page_counts \<Rightarrow> nat option" where
  "bucket p c =
     (if p = ''home'' then Some (pg_home c)
      else if p = ''about'' then Some (pg_about c)
      else if p = ''gallery'' then Some (pg_gallery c)
      else if p = ''videos'' then Some (pg_videos c)
      else if p = ''contact'' then Some (pg_contact c)
      else if p = ''licenses'' then Some (pg_licenses c)
      else if p = ''associations'' then Some (pg_associations c)
      else None)"

text \<open>
  The statistics of a stored document, as the mapper reads it: the fields that
  \<^verbatim>\<open>updateDailyStats\<close> writes. A path of \<^verbatim>\<open>byPage\<close> that is not stored reads as its
  default 0.
\<close>

record stats_fields =
  s_date :: date
  s_visitors_unique :: nat
  s_visitors_total :: nat
  s_pageViews_total :: nat
  s_byPage :: page_counts
  s_contactForms :: nat
  s_galleryViews :: nat
  s_reviews :: nat

text \<open>
  A stored document: the statistics, the fields that \<^verbatim>\<open>updateDailyStats\<close> never writes
  (device and browser counts, top referrers), which get the schema's defaults when the
  document is inserted, and the timestamps that the mapper maintains
  (\<^verbatim>\<open>timestamps: true\<close>).
\<close>

record site_stats = stats_fields +
  devices_desktop :: nat
  devices_mobile :: nat
  devices_tablet :: nat
  browsers_chrome :: nat
  browsers_firefox :: nat
  browsers_safari :: nat
  browsers_edge :: nat
  browsers_other :: nat
  topReferrers :: "(string \<times> nat) list"
  s_createdAt :: date
  s_updatedAt :: date

text \<open>
  The update is a plain object, so the mapper sends it as a \<^verbatim>\<open>$set\<close> after casting it
  through the schema, which is strict: of the keys of \<^verbatim>\<open>byPage\<close> only the seven paths of
  the schema are kept, every other key is dropped. \<^verbatim>\<open>pageViews\<close> is set as a whole, so a
  path without a key in the update holds nothing afterwards and reads as 0.
\<close>

definition castByPage :: "(string \<rightharpoonup> nat) \<Rightarrow> page_counts" where
  "castByPage m =
     \<lparr>pg_home = (case m ''home'' of None \<Rightarrow> 0 | Some v \<Rightarrow> v),
      pg_about = (case m ''about'' of None \<Rightarrow> 0 | Some v \<Rightarrow> v),
      pg_gallery = (case m ''gallery'' of None \<Rightarrow> 0 | Some v \<Rightarrow> v),
      pg_videos = (case m ''videos'' of None \<Rightarrow> 0 | Some v \<Rightarrow> v),
      pg_contact = (case m ''contact'' of None \<Rightarrow> 0 | Some v \<Rightarrow> v),
      pg_licenses = (case m ''licenses'' of None \<Rightarrow> 0 | Some v \<Rightarrow> v),
      pg_associations = (case m ''associations'' of None \<Rightarrow> 0 | Some v \<Rightarrow> v)\<rparr>"

definition castUpdate :: "stats_update \<Rightarrow> stats_fields" where
  "castUpdate u =
     \<lparr>s_date = sdate u, s_visitors_unique = visitors_unique u,
      s_visitors_total = visitors_total u, s_pageViews_total = pageViews_total u,
      s_byPage = castByPage (pageViews_byPage u), s_contactForms = contactForms u,
      s_galleryViews = galleryViews u, s_reviews = reviews u\<rparr>"

text \<open>
  \<^verbatim>\<open>findOneAndUpdate({ date: startOfDay }, statsUpdate, { upsert: true, new: true })\<close>:
  the first document with the date gets the fields of the cast update, and its
  \<^verbatim>\<open>updatedAt\<close> is set to the time of the call; when there is none, a document is inserted
  with them, the schema's defaults and both timestamps. The result is the document after
  the update, and the collection.
\<close>

definition applyUpdate :: "env \<Rightarrow> stats_update \<Rightarrow> site_stats \<Rightarrow> site_stats" where
  "applyUpdate e u q =
     q\<lparr>s_date := sdate u, s_visitors_unique := visitors_unique u,
       s_visitors_total := visitors_total u, s_pageViews_total := pageViews_total u,
       s_byPage := castByPage (pageViews_byPage u), s_contactForms := contactForms u,
       s_galleryViews := galleryViews u, s_reviews := reviews u, s_updatedAt := now e\<rparr>"

definition insertDoc :: "env \<Rightarrow> stats_update \<Rightarrow> site_stats" where
  "insertDoc e u =
     \<lparr>s_date = sdate u, s_visitors_unique = visitors_unique u,
      s_visitors_total = visitors_total u, s_pageViews_total = pageViews_total u,
      s_byPage = castByPage (pageViews_byPage u), s_contactForms = contactForms u,
      s_galleryViews = galleryViews u, s_reviews = reviews u,
      devices_desktop = 0, devices_mobile = 0, devices_tablet = 0,
      browsers_chrome = 0, browsers_firefox = 0, browsers_safari = 0, browsers_edge = 0,
      browsers_other = 0, topReferrers = [], s_createdAt = now e, s_updatedAt = now e\<rparr>"

fun findOneAndUpdate ::
  "env \<Rightarrow> date \<Rightarrow> stats_update \<Rightarrow> site_stats list \<Rightarrow> site_stats \<times> site_stats list" where
  "findOneAndUpdate e k u [] = (insertDoc e u, [insertDoc e u])"
| "findOneAndUpdate e k u (q # qs) =
     (if s_date q = k then (applyUpdate e u q, applyUpdate e u q # qs)
      else (case findOneAndUpdate e k u qs of (r, qs') \<Rightarrow> (r, q # qs')))"

definition updateDailyStats ::
  "env \<Rightarrow> date \<Rightarrow> event list \<Rightarrow> site_stats list \<Rightarrow> error + site_stats \<times> site_stats list" where
  "updateDailyStats e t evs store =
     (if analyticsReadFails e then Inl StoreError
      else if statsWriteFails e then Inl StoreError
      else Inr (findOneAndUpdate e (startOfDay e t) (statsUpdate e t evs) store))"

section \<open>The analytics controller (controllers/analyticsController.js)\<close>

subsection \<open>\<^verbatim>\<open>trackPageView\<close>\<close>

datatype track_body = Tracked

text \<open>
  \<^verbatim>\<open>
  export const trackPageView = asyncHandler(async (req, res) => {
    const { page, referrer, sessionId } = req.body;
    await Analytics.trackPageView({ page, referrer, sessionId, userAgent: ..., ipAddress: req.ip });
    res.json({ status: 'success', message: 'Page view tracked' });
  });
  \<close>
  The write is awaited and there is no \<^verbatim>\<open>try\<close> around it; \<^verbatim>\<open>asyncHandler\<close> hands the rejection
  of the handler's promise to \<^verbatim>\<open>next\<close>.
\<close>

definition trackPageView :: "env \<Rightarrow> track_req \<Rightarrow> event list \<Rightarrow> track_body response \<times> event list" where
  "trackPageView e r evs =
     (case Analytics_trackPageView e r evs of
        Inl err \<Rightarrow> (Next err, evs)
      | Inr evs' \<Rightarrow> (Json 200 Tracked, evs'))"

subsection \<open>\<^verbatim>\<open>getTimeSeriesData\<close>\<close>
















section \<open>The referral-code generator (models/Partner.js)\<close>

text \<open>
  \<^verbatim>\<open>Math.random()\<close> returns a number in [0, 1). It is modelled by the digits of its
  representation in base 36 after the point (the empty list for 0), which is what
  \<^verbatim>\<open>toString(36)\<close> prints after \<^verbatim>\<open>"0."\<close>.
\<close>

type_synonym random = "nat list"

definition base36 :: string where
  "base36 = digits @ lowers"

definition toString36 :: "random \<Rightarrow> string" where
  "toString36 ds = (if ds = [] then ''0'' else ''0.'' @ map (\<lambda>n. base36 ! (n mod 36)) ds)"

text \<open>\<^verbatim>\<open>s.substring(2, 5)\<close>\<close>

definition substring_2_5 :: "string \<Rightarrow> string" where
  "substring_2_5 s = take 3 (drop 2 s)"

text \<open>
  \<^verbatim>\<open>
  const generatePartnerCode = (name) => {
    const cleanName = name.replace(/[^a-zA-Z0-9]/g, '').toUpperCase().substring(0, 8);
    const randomSuffix = Math.random().toString(36).substring(2, 5).toUpperCase();
    return `TWBFL-${cleanName}${randomSuffix}`;
  };
  \<close>
\<close>

definition cleanName :: "string \<Rightarrow> string" where
  "cleanName n = take 8 (toUpperCase (filter isAlnum n))"

definition randomSuffix :: "random \<Rightarrow> string" where
  "randomSuffix rnd = toUpperCase (substring_2_5 (toString36 rnd))"

definition generatePartnerCode :: "string \<Rightarrow> random \<Rightarrow> string" where
  "generatePartnerCode n rnd = ''TWBFL-'' @ cleanName n @ randomSuffix rnd"

definition maxAttempts :: nat where
  "maxAttempts = 10"

text \<open>
  The loop of the pre-save hook. \<open>rnd i\<close> is what \<^verbatim>\<open>Math.random()\<close> returns in round \<open>i\<close>;
  \<^verbatim>\<open>findOne({ code: potentialCode })\<close> looks among all the partners, active or not. The
  result is the code that is assigned, or \<open>None\<close> when the loop ends without one.
  \<^verbatim>\<open>
  while (attempts < maxAttempts) {
    const potentialCode = generatePartnerCode(this.name);
    const existingPartner = await this.constructor.findOne({ code: potentialCode });
    if (!existingPartner) { this.code = potentialCode; break; }
    attempts++;
  }
  \<close>
\<close>

function tryCodes :: "(nat \<Rightarrow> random) \<Rightarrow> string \<Rightarrow> partner list \<Rightarrow> nat \<Rightarrow> string option" where
  "tryCodes rnd n ps attempts =
     (if attempts < maxAttempts
      then (let potentialCode = generatePartnerCode n (rnd attempts)
            in if find (\<lambda>p. code p = Some potentialCode) ps = None then Some potentialCode
               else tryCodes rnd n ps (attempts + 1))
      else None)"
  by pat_completeness auto
termination
  by (relation "measure (\<lambda>(rnd, n, ps, attempts). maxAttempts - attempts)") auto

declare tryCodes.simps [simp del]

text \<open>
  \<^verbatim>\<open>
  partnerSchema.pre('save', async function(next) {
    if (!this.code && this.name) {
      ... the loop ...
      if (!this.code) { return next(new Error('Unable to generate unique partner code')); }
    }
    next();
  });
  \<close>
  The document that goes on to be saved, or the error.
\<close>

definition preSave :: "(nat \<Rightarrow> random) \<Rightarrow> partner list \<Rightarrow> partner \<Rightarrow> error + partner" where
  "preSave rnd ps p =
     (if \<not> truthy (code p) \<and> name p \<noteq> []
      then (case tryCodes rnd (name p) ps 0 of
              Some c \<Rightarrow> Inr (p\<lparr>code := Some c\<rparr>)
            | None \<Rightarrow> Inl CodeGenerationFailed)
      else Inr p)"

subsection \<open>Creating a partner\<close>

text \<open>
  \<^verbatim>\<open>String.prototype.toLowerCase\<close> on the ASCII letters, and \<^verbatim>\<open>trim\<close> for the white space
  of the 8-bit characters.
\<close>

definition toLowerCase_char :: "char \<Rightarrow> char" where
  "toLowerCase_char c = (case map_of (zip uppers lowers) c of Some u \<Rightarrow> u | None \<Rightarrow> c)"

definition toLowerCase :: "string \<Rightarrow> string" where
  "toLowerCase s = map toLowerCase_char s"

definition isSpace :: "char \<Rightarrow> bool" where
  "isSpace c = (c \<in> set [CHR '' '', CHR 0x09, CHR 0x0A, CHR 0x0B, CHR 0x0C, CHR 0x0D])"

definition trim :: "string \<Rightarrow> string" where
  "trim s = rev (dropWhile isSpace (rev (dropWhile isSpace s)))"

text \<open>
  The validators of the schema on the paths \<^verbatim>\<open>name\<close> and \<^verbatim>\<open>code\<close>, with their messages:
  \<^verbatim>\<open>
  name: { type: String, required: [true, 'Partner name is required'], trim: true,
          maxlength: [100, 'Name cannot exceed 100 characters'] },
  code: { type: String, unique: true, required: true, uppercase: true,
          validate: { validator: v => /^TWBFL-[A-Z0-9]{4,10}$/.test(v),
                      message: 'Code must follow TWBFL-XXXXX format' } },
  \<close>
  A required string path fails when the value is absent or empty. The validators of the
  other paths (\<^verbatim>\<open>email\<close>, the social handles, \<^verbatim>\<open>phone\<close>, \<^verbatim>\<open>notes\<close>) call the library
  \<^verbatim>\<open>validator\<close> or test patterns that no property below depends on; they are taken to
  pass, so the model rejects a document only when the code does.
\<close>

definition validatePartner :: "partner \<Rightarrow> string list" where
  "validatePartner p =
     (if name p = [] then [''Partner name is required'']
      else if 100 < length (name p) then [''Name cannot exceed 100 characters'']
      else []) @
     (case code p of
        None \<Rightarrow> [''Path `code` is required.'']
      | Some c \<Rightarrow>
          if c = [] then [''Path `code` is required.'']
          else if matchesCodePattern c then []
          else [''Code must follow TWBFL-XXXXX format''])"

text \<open>
  \<^verbatim>\<open>Partner.create(doc)\<close>. The document is built with the setters of the schema (\<^verbatim>\<open>trim\<close> on
  the name, \<^verbatim>\<open>uppercase\<close> on the code) and saved. Saving runs the mapper's validation
  first: validation is the mapper's own pre-save hook, registered before the hooks of
  the schema, so a document that fails it is rejected before the schema's
  \<^verbatim>\<open>pre('save')\<close> hook runs. Then the hook runs, and the document is inserted, which the
  unique indexes on \<^verbatim>\<open>code\<close> and \<^verbatim>\<open>email\<close> may reject.
\<close>

definition Partner_create ::
  "(nat \<Rightarrow> random) \<Rightarrow> partner \<Rightarrow> partner list \<Rightarrow> error + partner \<times> partner list" where
  "Partner_create rnd p ps =
     (let p1 = p\<lparr>name := trim (name p), code := map_option toUpperCase (code p)\<rparr>
      in if validatePartner p1 \<noteq> [] then Inl (ValidationError (validatePartner p1))
         else (case preSave rnd ps p1 of
                 Inl err \<Rightarrow> Inl err
               | Inr p2 \<Rightarrow>
                   if list_ex (\<lambda>q. code q = code p2 \<or> email q = email p2) ps
                   then Inl DuplicateKey
                   else Inr (p2, ps @ [p2])))"

section \<open>The partner controller (controllers/partnerController.js)\<close>

text \<open>
  The body of the request of \<^verbatim>\<open>createPartner\<close>; a field that is absent is \<open>None\<close>. The
  social handles, the phone and the notes are passed on to the document unread and are
  left out.
\<close>

record partner_req =
  b_name :: "string option"
  b_type :: "partner_type option"
  b_email :: "string option"

datatype partner_body = PartnerFailure string | PartnerCreated partner

text \<open>
  \<^verbatim>\<open>
  const { name, type, email, social, phone, notes } = req.body;
  if (!name || !type || !email) return res.status(400).json({ ... });
  const existingPartner = await Partner.findOne({ email: email.toLowerCase() });
  if (existingPartner) return res.status(400).json({ ... });
  const partner = await Partner.create({ name: name.trim(), type, email: ..., ... });
  res.status(201).json({ status: 'success', data: { partner } });
  \<close>
  and, in the \<^verbatim>\<open>catch\<close>: 400 for the error code 11000, 400 with the joined messages for a
  \<^verbatim>\<open>ValidationError\<close>, 500 otherwise. No code is passed to \<^verbatim>\<open>Partner.create\<close>. The new
  document gets an id that no stored partner has.
\<close>

definition freshPid :: "partner list \<Rightarrow> nat" where
  "freshPid ps = Suc (fold max (map pid ps) 0)"

definition joinMessages :: "string list \<Rightarrow> string" where
  "joinMessages ms = foldr (\<lambda>a b. if b = [] then a else a @ '', '' @ b) ms []"

definition createPartner ::
  "env \<Rightarrow> (nat \<Rightarrow> random) \<Rightarrow> partner_req \<Rightarrow> partner list \<Rightarrow> partner_body response \<times> partner list" where
  "createPartner e rnd r ps =
     (case (b_name r, b_type r, b_email r) of
        (Some n, Some ty, Some m) \<Rightarrow>
          if n = [] \<or> m = []
          then (Json 400 (PartnerFailure ''Name, type, and email are required''), ps)
          else if partnerFindFails e then (Json 500 (PartnerFailure ''Failed to create partner''), ps)
          else if list_ex (\<lambda>q. email q = toLowerCase m) ps
          then (Json 400 (PartnerFailure ''Partner with this email already exists''), ps)
          else (case Partner_create rnd
                       \<lparr>pid = freshPid ps, name = trim n, ptype = ty,
                        email = trim (toLowerCase m), code = None, active = True,
                        totalLeads = 0, totalTours = 0, totalBookings = 0,
                        lastActivityAt = now e\<rparr> ps of
                  Inr (p, ps') \<Rightarrow> (Json 201 (PartnerCreated p), ps')
                | Inl DuplicateKey \<Rightarrow>
                    (Json 400 (PartnerFailure ''Partner with this email or code already exists''), ps)
                | Inl (ValidationError ms) \<Rightarrow> (Json 400 (PartnerFailure (joinMessages ms)), ps)
                | Inl err \<Rightarrow> (Json 500 (PartnerFailure ''Failed to create partner''), ps))
      | _ \<Rightarrow> (Json 400 (PartnerFailure ''Name, type, and email are required''), ps))"

section \<open>Example data\<close>

text \<open>A partner with three leads, one of them booked.\<close>

definition janeDoe :: partner where
  "janeDoe =
     \<lparr>pid = 1, name = ''Jane Doe'', ptype = Affiliate, email = ''jane@example.com'',
      code = Some ''TWBFL-JANEDOE1'', active = True, totalLeads = 3, totalTours = 0,
      totalBookings = 1, lastActivityAt = 0\<rparr>"

text \<open>An environment in which no call of the store rejects.\<close>

definition calm :: env where
  "calm =
     \<lparr>now = 1000, partnerFindFails = False, partnerSaveFails = False,
      contactFindFails = False, contactWriteFails = False, analyticsReadFails = False,
      analyticsWriteFails = False, statsWriteFails = False, tzOffset = 0\<rparr>"

text \<open>A submission that names Jane Doe's code, and the lead made from it.\<close>

definition annReq :: contact_req where
  "annReq =
     \<lparr>errors = [], r_name = ''Ann Lee'', r_email = ''ann@example.com'', r_phone = None,
      r_address = None, r_message = ''We would like to visit'',
      r_eventType = Some ''wedding'', r_eventDate = None, r_guestCount = Some 80,
      r_budget = None, r_refCode = Some ''TWBFL-JANEDOE1'', r_utmSource = None,
      r_utmMedium = None, r_utmCampaign = None, r_utmContent = None, r_utmTerm = None,
      r_ip = Some ''10.0.0.1'', r_userAgent = None\<rparr>"

definition annLead :: contact where
  "annLead = (contactData annReq (Some Affiliate))\<lparr>cid := 1\<rparr>"

definition smallDb :: db where
  "smallDb = \<lparr>partners = [janeDoe], contacts = [annLead]\<rparr>"

text \<open>Two funnel updates: a tour is scheduled; the lead books.\<close>

definition tourReq :: lead_req where
  "tourReq =
     \<lparr>q_tourScheduled = Some True, q_tourDate = Some 5000, q_booked = None,
      q_bookingDate = None, q_bookingAmount = None\<rparr>"

definition bookReq :: lead_req where
  "bookReq =
     \<lparr>q_tourScheduled = None, q_tourDate = None, q_booked = Some True,
      q_bookingDate = Some 9000, q_bookingAmount = Some 5000\<rparr>"

text \<open>A store with Jane Doe and no lead yet, and one with no partner at all.\<close>

definition partnerOnlyDb :: db where
  "partnerOnlyDb = \<lparr>partners = [janeDoe], contacts = []\<rparr>"

definition emptyDb :: db where
  "emptyDb = \<lparr>partners = [], contacts = []\<rparr>"

text \<open>
  The log of the scenario of the rollup: three views of \<^verbatim>\<open>/home\<close> from two addresses and
  one contact form, all on the day that starts at time 0.
\<close>

definition homeView :: "date \<Rightarrow> string \<Rightarrow> event" where
  "homeView t ip =
     \<lparr>createdAt = t, etype = PageView, page = Some ''/home'', userAgent = None,
      ipAddress = Some ip, referrer = None, sessionId = None\<rparr>"

definition formEvent :: "date \<Rightarrow> string \<Rightarrow> event" where
  "formEvent t ip =
     \<lparr>createdAt = t, etype = ContactForm, page = None, userAgent = None,
      ipAddress = Some ip, referrer = None, sessionId = None\<rparr>"

definition dayLog :: "event list" where
  "dayLog = [homeView 1000 ''10.0.0.1'', homeView 2000 ''10.0.0.1'', homeView 3000 ''10.0.0.2'',
             formEvent 4000 ''10.0.0.1'']"

text \<open>Two page views without a page: one with none, one with the empty string.\<close>

definition blankView :: "date \<Rightarrow> string option \<Rightarrow> event" where
  "blankView t pg =
     \<lparr>createdAt = t, etype = PageView, page = pg, userAgent = None,
      ipAddress = Some ''10.0.0.1'', referrer = None, sessionId = None\<rparr>"

definition blankLog :: "event list" where
  "blankLog = [blankView 1000 None, blankView 2000 (Some [])]"

text \<open>A page view to track, and an environment in which the write to the log rejects.\<close>

definition homeReq :: track_req where
  "homeReq = \<lparr>t_page = Some ''/home'', t_referrer = None, t_sessionId = Some ''s1'',
               t_userAgent = Some ''Mozilla/5.0'', t_ip = Some ''10.0.0.1''\<rparr>"

definition logDown :: env where
  "logDown = calm\<lparr>analyticsWriteFails := True\<rparr>"

text \<open>
  A partner that is about to be created, without a code; and one that already holds the
  code that the draw 4, 2, 3 gives for the name Jo.
\<close>

definition newPartner :: "string \<Rightarrow> partner" where
  "newPartner n =
     \<lparr>pid = 2, name = n, ptype = Vendor, email = ''new@example.com'', code = None,
      active = True, totalLeads = 0, totalTours = 0, totalBookings = 0, lastActivityAt = 0\<rparr>"

definition takenJo :: partner where
  "takenJo = (newPartner ''Jo'')\<lparr>pid := 3, code := Some ''TWBFL-JO423''\<rparr>"

text \<open>A request to create a partner.\<close>

definition janeReq :: partner_req where
  "janeReq = \<lparr>b_name = Some ''Jane Doe Smith'', b_type = Some Affiliate,
              b_email = Some ''jane.smith@example.com''\<rparr>"

text \<open>
  Two sources of random numbers: one that always returns the number whose base-36 digits
  are a, b, c, and one that always returns the number with the digits 4, 2, 3.
\<close>

definition drawABC :: "nat \<Rightarrow> random" where
  "drawABC i = [10, 11, 12]"

definition draw423 :: "nat \<Rightarrow> random" where
  "draw423 i = [4, 2, 3]"





text \<open>
  Views of several pages by one address: two pages of the schema (\<^verbatim>\<open>about\<close> once without
  the slash), two that the schema does not have, and one named like a property that
  every object inherits.
\<close>

definition pageView :: "date \<Rightarrow> string \<Rightarrow> event" where
  "pageView t pg =
     \<lparr>createdAt = t, etype = PageView, page = Some pg, userAgent = None,
      ipAddress = Some ''10.0.0.1'', referrer = None, sessionId = None\<rparr>"

definition mixedLog :: "event list" where
  "mixedLog = [pageView 1000 ''/'', pageView 2000 ''/about'', pageView 3000 ''/pricing'',
               pageView 4000 ''/gallery/1'', pageView 5000 ''/constructor'',
               pageView 6000 ''about'']"

text \<open>The document that the rollup of the two page views without a page stores.\<close>

definition blankDoc :: site_stats where
  "blankDoc =
     \<lparr>s_date = 0, s_visitors_unique = 1, s_visitors_total = 2, s_pageViews_total = 2,
      s_byPage = \<lparr>pg_home = 0, pg_about = 0, pg_gallery = 0, pg_videos = 0, pg_contact = 0,
                  pg_licenses = 0, pg_associations = 0\<rparr>,
      s_contactForms = 0, s_galleryViews = 0, s_reviews = 0,
      devices_desktop = 0, devices_mobile = 0, devices_tablet = 0,
      browsers_chrome = 0, browsers_firefox = 0, browsers_safari = 0, browsers_edge = 0,
      browsers_other = 0, topReferrers = [], s_createdAt = 1000, s_updatedAt = 1000\<rparr>"

text \<open>A partner with 160 leads, 23 of them booked.\<close>

definition busyPartner :: partner where
  "busyPartner = janeDoe\<lparr>totalLeads := 160, totalBookings := 23\<rparr>"

section \<open>Verified properties\<close>

subsection \<open>Helper facts about lists\<close>

lemma find_replace_by_key:
  assumes "x \<in> set xs" and "k y = k x"
  shows "find (\<lambda>q. k q = k x) (map (\<lambda>q. if k q = k x then y else q) xs) = Some y"
  using assms by (induction xs) auto

lemma find_SomeD: "find P xs = Some x \<Longrightarrow> P x \<and> x \<in> set xs"
  by (induction xs) (auto split: if_splits)

subsection \<open>The conversion rate\<close>

text \<open>Rounding to a double: the exponent, the nearest integer, and the relative error.\<close>

lemma powi_pos: "(0::rat) < 2 powi k"
  by (simp add: zero_less_power_int)

lemma powi_Suc: "(2::rat) powi (k + 1) = 2 * 2 powi k"
  by (simp add: power_int_add)

lemma powi_diff_nat:
  "(2::rat) powi (a - b) = 2 powi a / 2 powi b"
  by (simp add: power_int_diff)

lemma ilog2_bounds:
  assumes "0 < x"
  shows "2 powi (ilog2 x) \<le> x \<and> x < 2 powi (ilog2 x + 1)"
proof -
  obtain p q where pq: "quotient_of x = (p, q)" by (cases "quotient_of x")
  have q: "0 < q" using quotient_of_denom_pos [OF pq] .
  have x: "x = of_int p / of_int q" using quotient_of_div [OF pq] .
  have p: "0 < p" using assms q x by (simp add: zero_less_divide_iff)
  define bp where "bp = bitlen p"
  define bq where "bq = bitlen q"
  have bp: "2 ^ nat (bp - 1) \<le> p" "p < 2 ^ nat bp"
    using bitlen_bounds [OF p] by (simp_all add: bp_def)
  have bq: "2 ^ nat (bq - 1) \<le> q" "q < 2 ^ nat bq"
    using bitlen_bounds [OF q] by (simp_all add: bq_def)
  have bp1: "1 \<le> bp" using p by (simp add: bp_def bitlen_alt_def)
  have bq1: "1 \<le> bq" using q by (simp add: bq_def bitlen_alt_def)
  have P: "(2::rat) powi (bp - 1) \<le> of_int p" "(of_int p :: rat) < 2 powi bp"
  proof -
    have "(of_int (2 ^ nat (bp - 1)) :: rat) \<le> of_int p" using bp(1) by (simp only: of_int_le_iff)
    then show "(2::rat) powi (bp - 1) \<le> of_int p" using bp1 by (simp add: power_int_def)
    have "(of_int p :: rat) < of_int (2 ^ nat bp)" using bp(2) by (simp only: of_int_less_iff)
    then show "(of_int p :: rat) < 2 powi bp" using bp1 by (simp add: power_int_def)
  qed
  have Q: "(2::rat) powi (bq - 1) \<le> of_int q" "(of_int q :: rat) < 2 powi bq"
  proof -
    have "(of_int (2 ^ nat (bq - 1)) :: rat) \<le> of_int q" using bq(1) by (simp only: of_int_le_iff)
    then show "(2::rat) powi (bq - 1) \<le> of_int q" using bq1 by (simp add: power_int_def)
    have "(of_int q :: rat) < of_int (2 ^ nat bq)" using bq(2) by (simp only: of_int_less_iff)
    then show "(of_int q :: rat) < 2 powi bq" using bq1 by (simp add: power_int_def)
  qed
  have qpos: "(0::rat) < of_int q" using q by simp
  define k where "k = bp - bq"
  have up: "x < 2 powi (k + 1)"
  proof -
    have "of_int p < (2::rat) powi bp" by (rule P(2))
    also have "\<dots> = 2 powi (k + 1) * 2 powi (bq - 1)"
      by (simp add: k_def power_int_add [symmetric])
    also have "\<dots> \<le> 2 powi (k + 1) * of_int q"
      using Q(1) powi_pos [of "k + 1"] by (simp only: mult_le_cancel_left_pos)
    finally show ?thesis using qpos by (simp add: x pos_divide_less_eq)
  qed
  have lo: "2 powi (k - 1) \<le> x"
  proof -
    have "2 powi (k - 1) * of_int q \<le> (2::rat) powi (k - 1) * 2 powi bq"
      using Q(2) powi_pos [of "k - 1"] by (simp only: mult_le_cancel_left_pos less_imp_le)
    also have "\<dots> = 2 powi (bp - 1)"
      by (simp add: k_def power_int_add [symmetric])
    also have "\<dots> \<le> of_int p" by (rule P(1))
    finally show ?thesis using qpos by (simp add: x pos_le_divide_eq)
  qed
  have i: "ilog2 x = (if 2 powi k \<le> x then k else k - 1)"
    by (simp add: ilog2_def pq k_def bp_def bq_def)
  show ?thesis
  proof (cases "2 powi k \<le> x")
    case True
    then show ?thesis using up i by simp
  next
    case False
    then show ?thesis using lo i by simp
  qed
qed

lemma roundEven_close: "\<bar>of_int (roundEven y) - y\<bar> \<le> 1 / 2"
proof -
  have a: "of_int \<lfloor>y\<rfloor> \<le> y" "y < of_int \<lfloor>y\<rfloor> + 1" by linarith+
  show ?thesis
    using a by (auto simp: roundEven_def Let_def abs_le_iff)
qed

lemma roundEven_nonneg: "0 \<le> y \<Longrightarrow> 0 \<le> roundEven y"
  by (auto simp: roundEven_def Let_def)

lemma fround_nonneg: "0 \<le> fround x"
proof (cases "x \<le> 0")
  case True
  then show ?thesis by (simp add: fround_def)
next
  case False
  then have "0 \<le> x / 2 powi (ilog2 x - 52)" using powi_pos [of "ilog2 x - 52"] by simp
  then have "0 \<le> roundEven (x / 2 powi (ilog2 x - 52))" by (rule roundEven_nonneg)
  then show ?thesis using False powi_pos [of "ilog2 x - 52"]
    by (simp add: fround_def Let_def)
qed

lemma fround_close:
  assumes "0 \<le> x"
  shows "\<bar>fround x - x\<bar> \<le> x / 2 ^ 53"
proof (cases "x = 0")
  case True
  then show ?thesis by (simp add: fround_def)
next
  case False
  then have pos: "0 < x" using assms by simp
  define e where "e = ilog2 x - 52"
  define s where "s = (2::rat) powi e"
  define R where "R = roundEven (x / s)"
  have s: "0 < s" by (simp add: s_def powi_pos)
  have f: "fround x = of_int R * s" using pos by (simp add: fround_def Let_def e_def s_def R_def)
  have "\<bar>of_int R - x / s\<bar> \<le> 1 / 2" unfolding R_def by (rule roundEven_close)
  then have "\<bar>of_int R - x / s\<bar> * s \<le> 1 / 2 * s" using s by (simp only: mult_le_cancel_right_pos)
  moreover have "\<bar>of_int R - x / s\<bar> * s = \<bar>of_int R * s - x\<bar>"
  proof -
    have "\<bar>of_int R - x / s\<bar> * s = \<bar>(of_int R - x / s) * s\<bar>" using s by (simp add: abs_mult)
    also have "(of_int R - x / s) * s = of_int R * s - x" using s by (simp add: left_diff_distrib)
    finally show ?thesis .
  qed
  ultimately have 1: "\<bar>fround x - x\<bar> \<le> s / 2" by (simp add: f)
  have "s * 2 ^ 52 = 2 powi (ilog2 x)"
  proof -
    have "(2::rat) ^ 52 = 2 powi 52" by (simp add: power_int_def)
    then have "s * 2 ^ 52 = 2 powi (e + 52)" by (simp add: s_def power_int_add)
    then show ?thesis by (simp add: e_def)
  qed
  then have "s * 2 ^ 52 \<le> x" using ilog2_bounds [OF pos] by simp
  then have "s / 2 \<le> x / 2 ^ 53" by (simp add: field_simps)
  with 1 show ?thesis by linarith
qed

lemma toFixed2_hundredths_close:
  assumes "0 \<le> x"
  shows "\<bar>of_nat (toFixed2_hundredths x) / 100 - x\<bar> \<le> 1 / 200"
proof -
  let ?n = "\<lfloor>x * 100 + 1 / 2\<rfloor>"
  have nn: "0 \<le> ?n" using assms by simp
  have eq: "(of_nat (toFixed2_hundredths x) :: rat) = of_int ?n"
    using nn by (simp add: toFixed2_hundredths_def)
  have lo: "of_int ?n \<le> x * 100 + 1 / 2" by (rule of_int_floor_le)
  have hi: "x * 100 + 1 / 2 < of_int ?n + 1" by linarith
  show ?thesis unfolding eq using lo hi by linarith
qed

text \<open>The two roundings and the choice of the hundredths together.\<close>

lemma rate_close:
  assumes "0 \<le> q"
  shows "\<bar>of_nat (toFixed2_hundredths (fround (fround q * 100))) / 100 - q * 100\<bar>
           \<le> 1 / 200 + q * 100 / 2 ^ 51"
proof -
  define r1 where "r1 = fround q"
  define r2 where "r2 = fround (r1 * 100)"
  have r1: "0 \<le> r1" "\<bar>r1 - q\<bar> \<le> q / 2 ^ 53"
    using fround_nonneg [of q] fround_close [OF assms] by (simp_all add: r1_def)
  have r2: "0 \<le> r2" "\<bar>r2 - r1 * 100\<bar> \<le> r1 * 100 / 2 ^ 53"
    using fround_nonneg [of "r1 * 100"] fround_close [of "r1 * 100"] r1(1)
    by (simp_all add: r2_def)
  have n: "\<bar>of_nat (toFixed2_hundredths r2) / 100 - r2\<bar> \<le> 1 / 200"
    using toFixed2_hundredths_close [OF r2(1)] .
  have a: "r1 \<le> 2 * q"
  proof -
    have "q / 2 ^ 53 \<le> q" using assms by (simp add: field_simps)
    then show ?thesis using r1(2) by linarith
  qed
  have b: "r1 * 100 / 2 ^ 53 \<le> 200 * q / 2 ^ 53" using a by (simp add: field_simps)
  have c: "\<bar>r1 * 100 - q * 100\<bar> \<le> 100 * q / 2 ^ 53"
  proof -
    have "\<bar>r1 * 100 - q * 100\<bar> = \<bar>r1 - q\<bar> * 100" by (simp add: abs_if)
    then show ?thesis using r1(2) by simp
  qed
  have d: "200 * q / 2 ^ 53 + 100 * q / 2 ^ 53 \<le> q * 100 / 2 ^ 51"
    using assms by (simp add: field_simps)
  have "\<bar>of_nat (toFixed2_hundredths r2) / 100 - q * 100\<bar>
          \<le> 1 / 200 + (200 * q / 2 ^ 53 + 100 * q / 2 ^ 53)"
    using n r2(2) b c by linarith
  then show ?thesis using d unfolding r2_def r1_def by linarith
qed

text \<open>
  The number that a decimal numeral denotes: the digits before the point, and the digits
  after it as a fraction.
\<close>

definition digitValue :: "char \<Rightarrow> nat" where
  "digitValue c = (of_char c :: nat) - 48"

definition readNat :: "string \<Rightarrow> nat" where
  "readNat s = foldl (\<lambda>a c. 10 * a + digitValue c) 0 s"

definition decimalValue :: "string \<Rightarrow> rat" where
  "decimalValue s =
     (let i = takeWhile (\<lambda>c. c \<noteq> CHR ''.'') s;
          f = drop 1 (dropWhile (\<lambda>c. c \<noteq> CHR ''.'') s)
      in of_nat (readNat i) + of_nat (readNat f) / 10 ^ length f)"

lemma digit_cases: "k < 10 \<Longrightarrow> k \<in> {0, 1, 2, 3, 4, 5, 6, 7, 8, 9::nat}"
  by auto

lemma digitValue_digit: "k < 10 \<Longrightarrow> digitValue (digits ! k) = k"
  using digit_cases [of k] by (auto simp: digitValue_def digits_def)

lemma digit_not_point: "k < 10 \<Longrightarrow> digits ! k \<noteq> CHR ''.''"
  using digit_cases [of k] by (auto simp: digits_def)

lemma digit_in_digits:
  assumes "k < 10"
  shows "digits ! k \<in> set digits"
proof -
  have "k < length digits" using assms by (simp add: digits_def)
  then show ?thesis by (rule nth_mem)
qed

lemma show_nat_unfold:
  "show_nat n = (if n < 10 then [digits ! n] else show_nat (n div 10) @ [digits ! (n mod 10)])"
  by (rule show_nat.simps)

lemma readNat_snoc: "readNat (s @ [c]) = 10 * readNat s + digitValue c"
  by (simp add: readNat_def)

lemma readNat_show_nat: "readNat (show_nat n) = n"
proof (induction n rule: less_induct)
  case (less n)
  show ?case
  proof (cases "n < 10")
    case True
    then show ?thesis
      by (subst show_nat_unfold) (simp add: readNat_def digitValue_digit)
  next
    case False
    then have "n div 10 < n" by simp
    then have "readNat (show_nat (n div 10)) = n div 10" by (rule less.IH)
    then show ?thesis using False
      by (subst show_nat_unfold) (simp add: readNat_snoc digitValue_digit)
  qed
qed

lemma show_nat_digits: "set (show_nat n) \<subseteq> set digits"
proof (induction n rule: less_induct)
  case (less n)
  show ?case
  proof (cases "n < 10")
    case True
    then show ?thesis by (subst show_nat_unfold) (simp add: digit_in_digits)
  next
    case False
    then have "n div 10 < n" by simp
    then have "set (show_nat (n div 10)) \<subseteq> set digits" by (rule less.IH)
    then show ?thesis using False
      by (subst show_nat_unfold) (simp add: digit_in_digits)
  qed
qed

lemma show_nat_no_point: "c \<in> set (show_nat n) \<Longrightarrow> c \<noteq> CHR ''.''"
  using show_nat_digits [of n] by (auto simp: digits_def)

lemma readNat_two:
  assumes "a < 10" "b < 10"
  shows "readNat [digits ! a, digits ! b] = 10 * a + b"
  using assms by (simp add: readNat_def digitValue_digit)

lemma decimalValue_fixed:
  assumes "a < 10" "b < 10"
  shows "decimalValue (show_nat m @ ''.'' @ [digits ! a, digits ! b])
           = of_nat m + of_nat (10 * a + b) / 100"
proof -
  let ?f = "[digits ! a, digits ! b]"
  let ?s = "show_nat m @ ''.'' @ ?f"
  have np: "\<And>c. c \<in> set (show_nat m) \<Longrightarrow> c \<noteq> CHR ''.''" using show_nat_no_point by blast
  have 1: "takeWhile (\<lambda>c. c \<noteq> CHR ''.'') ?s = show_nat m"
    using np by (simp add: takeWhile_append2)
  have 2: "dropWhile (\<lambda>c. c \<noteq> CHR ''.'') ?s = ''.'' @ ?f"
    using np by (simp add: dropWhile_append2)
  have 3: "drop 1 (''.'' @ ?f) = ?f" by simp
  have 4: "(10::rat) ^ length ?f = 100" by simp
  show ?thesis
    unfolding decimalValue_def Let_def 1 2 3 4 readNat_show_nat readNat_two [OF assms] ..
qed

lemma toFixed2_form:
  "toFixed2 x = show_nat (toFixed2_hundredths x div 100) @ ''.'' @
                [digits ! (toFixed2_hundredths x mod 100 div 10), digits ! (toFixed2_hundredths x mod 10)]"
  unfolding toFixed2_def Let_def ..

lemma hundredths_split:
  "(of_nat (n div 100) :: rat) + of_nat (10 * (n mod 100 div 10) + n mod 10) / 100 = of_nat n / 100"
proof -
  have m: "n mod 100 mod 10 = n mod 10" by (simp add: mod_mod_cancel)
  have "n mod 100 = 10 * (n mod 100 div 10) + n mod 100 mod 10" by (rule mult_div_mod_eq [symmetric])
  then have a: "10 * (n mod 100 div 10) + n mod 10 = n mod 100" by (simp only: m)
  have "n = 100 * (n div 100) + n mod 100" by (rule mult_div_mod_eq [symmetric])
  then have "(of_nat n :: rat) = of_nat (100 * (n div 100) + n mod 100)" by (rule arg_cong)
  then have b: "(of_nat n :: rat) = 100 * of_nat (n div 100) + of_nat (n mod 100)"
    by (simp only: of_nat_add of_nat_mult of_nat_numeral)
  show ?thesis unfolding a b by (simp add: add_divide_distrib)
qed

lemma decimalValue_toFixed2:
  "decimalValue (toFixed2 x) = of_nat (toFixed2_hundredths x) / 100"
proof -
  define n where "n = toFixed2_hundredths x"
  have a: "n mod 100 div 10 < 10" "n mod 10 < 10" by simp_all
  show ?thesis
    unfolding toFixed2_form n_def [symmetric] decimalValue_fixed [OF a] hundredths_split ..
qed

lemma toFixed2_chars: "set (toFixed2 x) \<subseteq> set digits \<union> {CHR ''.''}"
proof -
  have a: "toFixed2_hundredths x mod 100 div 10 < 10" "toFixed2_hundredths x mod 10 < 10"
    by simp_all
  show ?thesis
    unfolding toFixed2_form
    using show_nat_digits [of "toFixed2_hundredths x div 100"]
      digit_in_digits [OF a(1)] digit_in_digits [OF a(2)]
    by auto
qed

lemma conversionRate_janeDoe: "conversionRate janeDoe = JSString ''33.33''"
  by code_simp

text \<open>
  Claim C7, as stated, fails: for a partner with 3 leads and 1 booking the getter does
  not return the quotient 1 / 3 * 100, neither the exact one nor the double that the
  arithmetic gives, but the string \<^verbatim>\<open>"33.33"\<close>, which denotes a different number.
\<close>

theorem conversionRate_not_exact_counterexample:
  "conversionRate janeDoe = JSString ''33.33'' \<and>
   conversionRate janeDoe \<noteq> JSNumber (of_nat (totalBookings janeDoe) / of_nat (totalLeads janeDoe) * 100) \<and>
   conversionRate janeDoe \<noteq>
     JSNumber (fround (fround (of_nat (totalBookings janeDoe) / of_nat (totalLeads janeDoe)) * 100)) \<and>
   decimalValue ''33.33'' \<noteq> of_nat (totalBookings janeDoe) / of_nat (totalLeads janeDoe) * 100"
proof -
  have c: "decimalValue ''33.33'' = 3333 / 100" by code_simp
  have d: "(3333 / 100 :: rat) \<noteq> of_nat (totalBookings janeDoe) / of_nat (totalLeads janeDoe) * 100"
    by (simp add: janeDoe_def)
  show ?thesis using c d by (simp add: conversionRate_janeDoe)
qed

lemma conversionRate_busyPartner: "conversionRate busyPartner = JSString ''14.37''"
  by code_simp

lemma decimalValue_1437: "decimalValue ''14.37'' = 1437 / 100"
  by code_simp

text \<open>
  Claim C7, amended. With no leads the conversion rate is the number 0, and the
  division is not evaluated. With at least one lead, and both counters at most \<open>2 ^ 53\<close>
  (the integers that a double holds exactly), it is a string of decimal digits and a
  point: the one that \<^verbatim>\<open>toFixed(2)\<close> makes of bookings / leads * 100 as computed in
  double precision (the quotient is rounded, then the product). The number that the
  string denotes is within 0.005, plus the share \<open>2 ^ - 51\<close> of the rate for the two
  roundings, of the exact bookings / leads * 100. It need not be the exact rate rounded
  to two decimals: 23 bookings out of 160 leads give \<^verbatim>\<open>"14.37"\<close>, where the exact rate is
  14.375.
\<close>

theorem conversionRate_rounded:
  "(totalLeads p = 0 \<longrightarrow> conversionRate p = JSNumber 0) \<and>
   (0 < totalLeads p \<and> totalLeads p \<le> 2 ^ 53 \<and> totalBookings p \<le> 2 ^ 53 \<longrightarrow>
      (\<exists>s. conversionRate p = JSString s \<and>
           s = toFixed2 (fround (fround (of_nat (totalBookings p) / of_nat (totalLeads p)) * 100)) \<and>
           set s \<subseteq> set digits \<union> {CHR ''.''} \<and>
           \<bar>decimalValue s - of_nat (totalBookings p) / of_nat (totalLeads p) * 100\<bar>
             \<le> 1 / 200 + of_nat (totalBookings p) / of_nat (totalLeads p) * 100 / 2 ^ 51))"
proof -
  let ?q = "of_nat (totalBookings p) / of_nat (totalLeads p) :: rat"
  have q: "0 \<le> ?q" by simp
  have "\<bar>decimalValue (toFixed2 (fround (fround ?q * 100))) - ?q * 100\<bar>
          \<le> 1 / 200 + ?q * 100 / 2 ^ 51"
    using rate_close [OF q] by (simp only: decimalValue_toFixed2)
  then show ?thesis
    using toFixed2_chars [of "fround (fround ?q * 100)"]
    by (simp add: conversionRate_def)
qed

theorem conversionRate_rounded_witness:
  "(0 < totalLeads busyPartner \<and> totalLeads busyPartner \<le> 2 ^ 53 \<and>
    totalBookings busyPartner \<le> 2 ^ 53) \<and>
   conversionRate busyPartner = JSString ''14.37'' \<and>
   \<bar>decimalValue ''14.37'' - of_nat (totalBookings busyPartner) / of_nat (totalLeads busyPartner) * 100\<bar>
     \<le> 1 / 200 + of_nat (totalBookings busyPartner) / of_nat (totalLeads busyPartner) * 100 / 2 ^ 51"
proof -
  have h: "0 < totalLeads busyPartner \<and> totalLeads busyPartner \<le> 2 ^ 53 \<and>
    totalBookings busyPartner \<le> 2 ^ 53"
    by (simp add: busyPartner_def)
  from conversionRate_rounded [of busyPartner] h
  obtain s where s: "conversionRate busyPartner = JSString s"
    and b: "\<bar>decimalValue s - of_nat (totalBookings busyPartner) / of_nat (totalLeads busyPartner) * 100\<bar>
             \<le> 1 / 200 + of_nat (totalBookings busyPartner) / of_nat (totalLeads busyPartner) * 100 / 2 ^ 51"
    by blast
  from s have "s = ''14.37''" by (simp only: conversionRate_busyPartner js_value.inject)
  with b h conversionRate_busyPartner show ?thesis by blast
qed

subsection \<open>Fetching one contact\<close>

text \<open>
  Claim C10: fetching a contact that the store holds is not a pure read. When its status
  is \<open>New\<close> the handler stores it with status \<open>Read\<close> before it responds (a fetch of the
  same id afterwards finds the \<open>Read\<close> document; when the save rejects, no success
  response is sent); when its status is anything else, the store is left as it was and
  the document is returned unchanged.
\<close>

theorem getContactSubmission_marks_new_read:
  assumes "findById e i d = Inr (Some c)"
  shows "(status c = New \<and> \<not> contactWriteFails e \<longrightarrow>
            getContactSubmission e i d =
              (Json 200 (ContactData (c\<lparr>status := Read\<rparr>)),
               d\<lparr>contacts := map (\<lambda>q. if cid q = i then c\<lparr>status := Read\<rparr> else q) (contacts d)\<rparr>) \<and>
            findById e i (snd (getContactSubmission e i d)) = Inr (Some (c\<lparr>status := Read\<rparr>))) \<and>
         (status c = New \<and> contactWriteFails e \<longrightarrow> getContactSubmission e i d = (Next StoreError, d)) \<and>
         (status c \<noteq> New \<longrightarrow> getContactSubmission e i d = (Json 200 (ContactData c), d))"
proof -
  from assms have nf: "\<not> contactFindFails e"
    and f: "find (\<lambda>c. cid c = i) (contacts d) = Some c"
    by (auto simp: findById_def split: if_splits)
  from find_SomeD [OF f] have ci: "cid c = i" and cin: "c \<in> set (contacts d)" by auto
  have persisted:
    "find (\<lambda>q. cid q = i) (map (\<lambda>q. if cid q = i then c\<lparr>status := Read\<rparr> else q) (contacts d))
       = Some (c\<lparr>status := Read\<rparr>)"
    using find_replace_by_key [of c "contacts d" cid "c\<lparr>status := Read\<rparr>"] cin ci by simp
  show ?thesis
    using assms nf ci persisted
    by (simp add: getContactSubmission_def saveContact_def findById_def Let_def)
qed

theorem getContactSubmission_marks_new_read_witness:
  "findById calm 1 smallDb = Inr (Some annLead) \<and> status annLead = New \<and>
   \<not> contactWriteFails calm \<and>
   getContactSubmission calm 1 smallDb =
     (Json 200 (ContactData (annLead\<lparr>status := Read\<rparr>)),
      smallDb\<lparr>contacts :=
        map (\<lambda>q. if cid q = 1 then annLead\<lparr>status := Read\<rparr> else q) (contacts smallDb)\<rparr>) \<and>
   findById calm 1 (snd (getContactSubmission calm 1 smallDb))
     = Inr (Some (annLead\<lparr>status := Read\<rparr>))"
proof -
  have h: "findById calm 1 smallDb = Inr (Some annLead)"
    by (simp add: findById_def calm_def smallDb_def annLead_def)
  have s: "status annLead = New" "\<not> contactWriteFails calm"
    by (simp_all add: annLead_def calm_def contactData_def)
  show ?thesis
    using getContactSubmission_marks_new_read [OF h] h s by blast
qed

subsection \<open>The funnel update\<close>

lemma updateTour_keeps_db: "snd (updateTour e r c d) = d"
  by (auto simp: updateTour_def Let_def split: option.splits)

lemma updateBooking_keeps_db: "snd (updateBooking e r c d) = d"
  by (auto simp: updateBooking_def Let_def split: option.splits)

text \<open>
  The condition \<^verbatim>\<open>tourScheduled && !contact.tourScheduled\<close> is read after
  \<^verbatim>\<open>contact.tourScheduled = tourScheduled\<close>, so it never holds (and likewise for
  \<^verbatim>\<open>booked\<close>): no funnel update with boolean flags changes any partner.
\<close>

lemma updateContactLeadStatus_partners_unchanged:
  "partners (snd (updateContactLeadStatus e i r d)) = partners d"
proof (cases "findById e i d")
  case (Inl err)
  then show ?thesis by (simp add: updateContactLeadStatus_def)
next
  case (Inr found)
  show ?thesis
  proof (cases found)
    case None
    with Inr show ?thesis by (simp add: updateContactLeadStatus_def)
  next
    case (Some c)
    obtain c1 d1 where t: "updateTour e r c d = (c1, d1)" by (cases "updateTour e r c d")
    obtain c2 d2 where b: "updateBooking e r c1 d1 = (c2, d2)" by (cases "updateBooking e r c1 d1")
    from t updateTour_keeps_db [of e r c d] have d1: "d1 = d" by simp
    from b updateBooking_keeps_db [of e r c1 d1] have d2: "d2 = d1" by simp
    show ?thesis
      using Inr Some t b d1 d2
      by (simp add: updateContactLeadStatus_def saveContact_def)
  qed
qed

text \<open>
  Claim C1 at its failing input. Ann Lee's lead carries Jane Doe's code and has neither a
  tour nor a booking. The first update with \<^verbatim>\<open>tourScheduled = true\<close> stores the flag and
  the date on the lead but leaves Jane Doe's \<open>totalTours\<close> at 0, where the claim has it
  go to 1; the first update with \<^verbatim>\<open>booked = true\<close> leaves \<open>totalBookings\<close> at 1, where the
  claim has it go to 2.
\<close>

theorem updateContactLeadStatus_first_transition_not_counted:
  "updateContactLeadStatus calm 1 tourReq smallDb =
     (Json 200 (ContactData (annLead\<lparr>tourScheduled := True, tourDate := Some 5000\<rparr>)),
      \<lparr>partners = [janeDoe],
       contacts = [annLead\<lparr>tourScheduled := True, tourDate := Some 5000\<rparr>]\<rparr>) \<and>
   updateContactLeadStatus calm 1 bookReq smallDb =
     (Json 200 (ContactData
        (annLead\<lparr>booked := True, bookingDate := Some 9000, bookingAmount := Some 5000\<rparr>)),
      \<lparr>partners = [janeDoe],
       contacts =
         [annLead\<lparr>booked := True, bookingDate := Some 9000, bookingAmount := Some 5000\<rparr>]\<rparr>) \<and>
   tourScheduled annLead = False \<and> booked annLead = False \<and>
   refCode annLead = code janeDoe \<and> active janeDoe \<and>
   totalTours janeDoe = 0 \<and> totalBookings janeDoe = 1"
  by (simp add: updateContactLeadStatus_def updateTour_def updateBooking_def findById_def
      saveContact_def calm_def tourReq_def bookReq_def smallDb_def annLead_def Let_def
      truthy_def contactData_def annReq_def janeDoe_def toUpperCase_def toUpperCase_char_def
      lowers_def uppers_def)

subsection \<open>Submitting a lead\<close>

lemma resolveReferral_unresolved:
  "\<not> truthy rc \<or> (rc = Some c \<and> (findByCode e c d = Inl err \<or> findByCode e c d = Inr None))
   \<Longrightarrow> resolveReferral e rc d = (None, d)"
  by (auto simp: resolveReferral_def truthy_def split: option.splits)

lemma resolveReferral_resolved:
  assumes "rc = Some c" "c \<noteq> []" "findByCode e c d = Inr (Some p)"
  shows "resolveReferral e rc d =
           (Some (ptype p),
            if partnerSaveFails e then d
            else d\<lparr>partners :=
                     map (\<lambda>q. if pid q = pid p then bumpStats Lead (now e) p else q) (partners d)\<rparr>)"
  using assms by (simp add: resolveReferral_def updateStats_def savePartner_def bumpStats_def)

lemma pid_bumpStats: "pid (bumpStats k t p) = pid p"
  by (cases k) (simp_all add: bumpStats_def)

text \<open>
  Claim C9. A submission's own fields are valid when the route's validators reported no
  error and the contact model accepts the document. Then the lead is created and the
  response is 201, whatever the referral lookup does:
  \<^item> with no code, with a code that no active partner has, or with a lookup that rejects,
    the lead is stored with \<open>refSource = None\<close> and no partner is touched;
  \<^item> with a code that resolves to the partner \<open>p\<close>, the lead is stored with
    \<open>refSource = Some (ptype p)\<close>, and the stored partner has one lead more (unless the
    save of the partner rejects, which is caught: the lead is stored all the same).
\<close>

theorem submitContactForm_referral_nonfatal:
  assumes "errors r = []" and "\<not> contactWriteFails e"
  shows "(\<not> truthy (r_refCode r) \<or>
          (r_refCode r = Some rc \<and> (findByCode e rc d = Inl err \<or> findByCode e rc d = Inr None))
          \<longrightarrow> submitContactForm e r d =
                (Json 201 (Submitted (freshId (contacts d)) (now e)),
                 d\<lparr>contacts := contacts d @ [newContact e (contactData r None) d]\<rparr>) \<and>
              refSource (newContact e (contactData r None) d) = None) \<and>
         (r_refCode r = Some rc \<and> rc \<noteq> [] \<and> findByCode e rc d = Inr (Some p)
          \<longrightarrow> fst (submitContactForm e r d) = Json 201 (Submitted (freshId (contacts d)) (now e)) \<and>
              contacts (snd (submitContactForm e r d)) =
                contacts d @ [newContact e (contactData r (Some (ptype p))) d] \<and>
              refSource (newContact e (contactData r (Some (ptype p))) d) = Some (ptype p) \<and>
              (\<not> partnerSaveFails e \<longrightarrow>
                 partners (snd (submitContactForm e r d)) =
                   map (\<lambda>q. if pid q = pid p then bumpStats Lead (now e) p else q) (partners d) \<and>
                 find (\<lambda>q. pid q = pid p) (partners (snd (submitContactForm e r d)))
                   = Some (p\<lparr>totalLeads := totalLeads p + 1, lastActivityAt := now e\<rparr>)) \<and>
              (partnerSaveFails e \<longrightarrow> partners (snd (submitContactForm e r d)) = partners d))"
proof (intro conjI impI)
  assume u: "\<not> truthy (r_refCode r) \<or>
          (r_refCode r = Some rc \<and> (findByCode e rc d = Inl err \<or> findByCode e rc d = Inr None))"
  from resolveReferral_unresolved [OF u] assms
  show "submitContactForm e r d =
                (Json 201 (Submitted (freshId (contacts d)) (now e)),
                 d\<lparr>contacts := contacts d @ [newContact e (contactData r None) d]\<rparr>)"
    by (simp add: submitContactForm_def createContact_def Let_def newContact_def)
  show "refSource (newContact e (contactData r None) d) = None"
    by (simp add: newContact_def contactData_def)
next
  assume h: "r_refCode r = Some rc \<and> rc \<noteq> [] \<and> findByCode e rc d = Inr (Some p)"
  then have rr: "resolveReferral e (r_refCode r) d =
           (Some (ptype p),
            if partnerSaveFails e then d
            else d\<lparr>partners :=
                     map (\<lambda>q. if pid q = pid p then bumpStats Lead (now e) p else q) (partners d)\<rparr>)"
    using resolveReferral_resolved [of "r_refCode r" rc e d p] by simp
  from h have "find (\<lambda>p. code p = Some (toUpperCase rc) \<and> active p) (partners d) = Some p"
    by (auto simp: findByCode_def split: if_splits)
  then have pin: "p \<in> set (partners d)"
    using find_SomeD by fastforce
  show "fst (submitContactForm e r d) = Json 201 (Submitted (freshId (contacts d)) (now e))"
    using rr assms by (simp add: submitContactForm_def createContact_def Let_def newContact_def)
  show "contacts (snd (submitContactForm e r d)) =
                contacts d @ [newContact e (contactData r (Some (ptype p))) d]"
    using rr assms by (simp add: submitContactForm_def createContact_def Let_def newContact_def)
  show "refSource (newContact e (contactData r (Some (ptype p))) d) = Some (ptype p)"
    by (simp add: newContact_def contactData_def)
  { assume ok: "\<not> partnerSaveFails e"
    show m: "partners (snd (submitContactForm e r d)) =
                   map (\<lambda>q. if pid q = pid p then bumpStats Lead (now e) p else q) (partners d)"
      using rr assms ok by (simp add: submitContactForm_def createContact_def Let_def)
    show "find (\<lambda>q. pid q = pid p) (partners (snd (submitContactForm e r d)))
                   = Some (p\<lparr>totalLeads := totalLeads p + 1, lastActivityAt := now e\<rparr>)"
      unfolding m using find_replace_by_key [of p "partners d" pid "bumpStats Lead (now e) p"] pin
      by (simp add: pid_bumpStats) (simp add: bumpStats_def) }
  { assume bad: "partnerSaveFails e"
    show "partners (snd (submitContactForm e r d)) = partners d"
      using rr assms bad by (simp add: submitContactForm_def createContact_def Let_def) }
qed

text \<open>
  The theorem at two inputs: Ann Lee's submission against a store that holds Jane Doe
  (the code resolves: Jane Doe's leads go from 3 to 4), and against an empty store (the
  code does not resolve: the lead is stored unattributed).
\<close>

theorem submitContactForm_referral_nonfatal_witness:
  "errors annReq = [] \<and> \<not> contactWriteFails calm \<and> \<not> partnerSaveFails calm \<and>
   r_refCode annReq = Some ''TWBFL-JANEDOE1'' \<and>
   findByCode calm ''TWBFL-JANEDOE1'' partnerOnlyDb = Inr (Some janeDoe) \<and>
   fst (submitContactForm calm annReq partnerOnlyDb)
     = Json 201 (Submitted (freshId (contacts partnerOnlyDb)) (now calm)) \<and>
   refSource (newContact calm (contactData annReq (Some (ptype janeDoe))) partnerOnlyDb)
     = Some (ptype janeDoe) \<and>
   find (\<lambda>q. pid q = pid janeDoe) (partners (snd (submitContactForm calm annReq partnerOnlyDb)))
     = Some (janeDoe\<lparr>totalLeads := totalLeads janeDoe + 1, lastActivityAt := now calm\<rparr>) \<and>
   findByCode calm ''TWBFL-JANEDOE1'' emptyDb = Inr None \<and>
   submitContactForm calm annReq emptyDb =
     (Json 201 (Submitted (freshId (contacts emptyDb)) (now calm)),
      emptyDb\<lparr>contacts := contacts emptyDb @ [newContact calm (contactData annReq None) emptyDb]\<rparr>) \<and>
   refSource (newContact calm (contactData annReq None) emptyDb) = None"
proof -
  have v: "errors annReq = []" "\<not> contactWriteFails calm" "\<not> partnerSaveFails calm"
    "r_refCode annReq = Some ''TWBFL-JANEDOE1''" "''TWBFL-JANEDOE1'' \<noteq> []"
    by (simp_all add: annReq_def calm_def)
  have up: "toUpperCase ''TWBFL-JANEDOE1'' = ''TWBFL-JANEDOE1''"
    by (simp add: toUpperCase_def toUpperCase_char_def lowers_def uppers_def)
  have f1: "findByCode calm ''TWBFL-JANEDOE1'' partnerOnlyDb = Inr (Some janeDoe)"
    by (simp add: findByCode_def up) (simp add: calm_def partnerOnlyDb_def janeDoe_def)
  have f2: "findByCode calm ''TWBFL-JANEDOE1'' emptyDb = Inr None"
    by (simp add: findByCode_def calm_def emptyDb_def)
  note a = submitContactForm_referral_nonfatal
    [OF v(1) v(2), of "''TWBFL-JANEDOE1''" partnerOnlyDb StoreError janeDoe]
  note b = submitContactForm_referral_nonfatal
    [OF v(1) v(2), of "''TWBFL-JANEDOE1''" emptyDb StoreError janeDoe]
  show ?thesis using a b v f1 f2 by blast
qed

subsection \<open>Auxiliary notions for the rollup\<close>

text \<open>
  The sum of the counts of the rows whose key satisfies \<open>P\<close>; the keys of a type; the keys
  that the loop counts under the page name \<open>p\<close>, which is then not a name inherited from
  \<^verbatim>\<open>Object.prototype\<close> (and the events that have such a key); the address of a key, when
  it is truthy.
\<close>

definition weight :: "('k \<Rightarrow> bool) \<Rightarrow> ('k \<times> nat) list \<Rightarrow> nat" where
  "weight P rows = sum_list (map (\<lambda>(k, c). if P k then c else 0) rows)"

definition isType :: "event_type \<Rightarrow> group_key \<Rightarrow> bool" where
  "isType ty k = (fst k = ty)"

definition pageHit :: "string \<Rightarrow> group_key \<Rightarrow> bool" where
  "pageHit p k =
     (fst k = PageView \<and> p \<notin> set objectPrototypeKeys \<and>
      (case fst (snd k) of None \<Rightarrow> False | Some s \<Rightarrow> s \<noteq> [] \<and> pageName s = p))"

definition countedUnder :: "string \<Rightarrow> event \<Rightarrow> bool" where
  "countedUnder p ev =
     (etype ev = PageView \<and> p \<notin> set objectPrototypeKeys \<and>
      (case page ev of None \<Rightarrow> False | Some s \<Rightarrow> s \<noteq> [] \<and> pageName s = p))"

definition realIP :: "group_key \<Rightarrow> string set" where
  "realIP k = (case snd (snd k) of None \<Rightarrow> {} | Some a \<Rightarrow> if a = [] then {} else {a})"

subsection \<open>Grouping with a count\<close>

lemma weight_Nil [simp]: "weight P [] = 0"
  by (simp add: weight_def)

lemma weight_Cons [simp]:
  "weight P ((k, c) # rows) = (if P k then c else 0) + weight P rows"
  by (simp add: weight_def)

lemma keys_bump: "fst ` set (bump k rows) = insert k (fst ` set rows)"
  by (induction k rows rule: bump.induct) auto

lemma distinct_bump: "distinct (map fst rows) \<Longrightarrow> distinct (map fst (bump k rows))"
proof (induction k rows rule: bump.induct)
  case (1 k) show ?case by simp
next
  case (2 k k' c rows)
  then show ?case using keys_bump [of k rows] by auto
qed

lemma weight_bump: "weight P (bump k rows) = weight P rows + (if P k then 1 else 0)"
  by (induction k rows rule: bump.induct) auto

lemma positive_bump:
  "list_all (\<lambda>(k, c). 0 < c) rows \<Longrightarrow> list_all (\<lambda>(k, c). 0 < c) (bump k rows)"
  by (induction k rows rule: bump.induct) auto

lemma keys_foldl_bump:
  "fst ` set (foldl (\<lambda>rows k. bump k rows) acc ks) = fst ` set acc \<union> set ks"
  by (induction ks arbitrary: acc) (simp_all add: keys_bump)

lemma distinct_foldl_bump:
  "distinct (map fst acc) \<Longrightarrow> distinct (map fst (foldl (\<lambda>rows k. bump k rows) acc ks))"
  by (induction ks arbitrary: acc) (simp_all add: distinct_bump)

lemma weight_foldl_bump:
  "weight P (foldl (\<lambda>rows k. bump k rows) acc ks) = weight P acc + length (filter P ks)"
  by (induction ks arbitrary: acc) (simp_all add: weight_bump)

lemma positive_foldl_bump:
  "list_all (\<lambda>(k, c). 0 < c) acc
   \<Longrightarrow> list_all (\<lambda>(k, c). 0 < c) (foldl (\<lambda>rows k. bump k rows) acc ks)"
  by (induction ks arbitrary: acc) (simp_all add: positive_bump)

lemma keys_groupCount: "fst ` set (groupCount ks) = set ks"
  by (simp add: groupCount_def keys_foldl_bump)

lemma distinct_groupCount: "distinct (map fst (groupCount ks))"
  by (simp add: groupCount_def distinct_foldl_bump)

lemma weight_groupCount: "weight P (groupCount ks) = length (filter P ks)"
  by (simp add: groupCount_def weight_foldl_bump)

lemma positive_groupCount: "list_all (\<lambda>(k, c). 0 < c) (groupCount ks)"
  by (simp add: groupCount_def positive_foldl_bump)

lemma length_groupCount: "length (groupCount ks) = card (set ks)"
proof -
  have "length (groupCount ks) = length (map fst (groupCount ks))" by simp
  also have "\<dots> = card (set (map fst (groupCount ks)))"
    using distinct_groupCount [of ks] by (simp only: distinct_card)
  also have "\<dots> = card (set ks)" by (simp add: keys_groupCount)
  finally show ?thesis .
qed

subsection \<open>The loop over the rows\<close>

lemma weight_Cons_row: "weight P (row # rows) = (if P (fst row) then snd row else 0) + weight P rows"
  by (cases row) simp

lemma weight_none: "\<not> list_ex (\<lambda>row. P (fst row)) rows \<Longrightarrow> weight P rows = 0"
  by (induction rows) (auto simp: weight_Cons_row)

lemma tally_counts:
  "pageViews_total (snd (tally acc row)) =
     pageViews_total (snd acc) + (if isType PageView (fst row) then snd row else 0)"
  "contactForms (snd (tally acc row)) =
     contactForms (snd acc) + (if isType ContactForm (fst row) then snd row else 0)"
  "galleryViews (snd (tally acc row)) =
     galleryViews (snd acc) + (if isType GalleryView (fst row) then snd row else 0)"
  "reviews (snd (tally acc row)) =
     reviews (snd acc) + (if isType ReviewSubmission (fst row) then snd row else 0)"
  "sdate (snd (tally acc row)) = sdate (snd acc)"
  by (cases acc; cases row; cases "fst row";
      auto simp: tally_def isType_def Let_def split: event_type.splits option.splits)+

lemma tally_byPage:
  "pageViews_byPage (snd (tally acc row)) p =
     (if pageHit p (fst row)
      then Some ((case pageViews_byPage (snd acc) p of None \<Rightarrow> 0 | Some v \<Rightarrow> v) + snd row)
      else pageViews_byPage (snd acc) p)"
  by (cases acc; cases row; cases "fst row";
      auto simp: tally_def pageHit_def addToPage_def Let_def split: event_type.splits option.splits)

lemma tally_ips:
  "set (fst (tally acc row)) = set (fst acc) \<union> realIP (fst row)"
  "distinct (fst acc) \<Longrightarrow> distinct (fst (tally acc row))"
  by (cases acc; cases row; cases "fst row";
      auto simp: tally_def realIP_def addIP_def split: option.splits)+

lemma fold_pageViews_total:
  "pageViews_total (snd (foldl tally acc rows)) =
     pageViews_total (snd acc) + weight (isType PageView) rows"
  by (induction rows arbitrary: acc) (simp_all add: tally_counts weight_Cons_row)

lemma fold_contactForms:
  "contactForms (snd (foldl tally acc rows)) =
     contactForms (snd acc) + weight (isType ContactForm) rows"
  by (induction rows arbitrary: acc) (simp_all add: tally_counts weight_Cons_row)

lemma fold_galleryViews:
  "galleryViews (snd (foldl tally acc rows)) =
     galleryViews (snd acc) + weight (isType GalleryView) rows"
  by (induction rows arbitrary: acc) (simp_all add: tally_counts weight_Cons_row)

lemma fold_reviews:
  "reviews (snd (foldl tally acc rows)) =
     reviews (snd acc) + weight (isType ReviewSubmission) rows"
  by (induction rows arbitrary: acc) (simp_all add: tally_counts weight_Cons_row)

lemma fold_sdate: "sdate (snd (foldl tally acc rows)) = sdate (snd acc)"
  by (induction rows arbitrary: acc) (simp_all add: tally_counts)

lemma fold_byPage:
  "pageViews_byPage (snd (foldl tally acc rows)) p =
     (if list_ex (\<lambda>row. pageHit p (fst row)) rows
      then Some ((case pageViews_byPage (snd acc) p of None \<Rightarrow> 0 | Some v \<Rightarrow> v)
                 + weight (pageHit p) rows)
      else pageViews_byPage (snd acc) p)"
proof (induction rows arbitrary: acc)
  case Nil
  show ?case by simp
next
  case (Cons row rows)
  show ?case
    using Cons.IH [of "tally acc row"] weight_none [of "pageHit p" rows]
    by (simp add: tally_byPage weight_Cons_row)
qed

lemma fold_ips:
  "set (fst (foldl tally acc rows)) = set (fst acc) \<union> (\<Union>row \<in> set rows. realIP (fst row))"
  by (induction rows arbitrary: acc) (auto simp: tally_ips)

lemma fold_ips_distinct:
  "distinct (fst acc) \<Longrightarrow> distinct (fst (foldl tally acc rows))"
  by (induction rows arbitrary: acc) (simp_all add: tally_ips)

subsection \<open>What the rollup computes\<close>

lemma pageHit_groupKey: "pageHit p (groupKey ev) = countedUnder p ev"
  by (simp add: pageHit_def groupKey_def countedUnder_def)

lemma length_filter_map: "length (filter P (map f xs)) = length (filter (\<lambda>x. P (f x)) xs)"
  by (induction xs) auto

lemma statsUpdate_split:
  "statsUpdate e t evs =
     (snd (foldl tally ([], emptyStats (startOfDay e t)) (dailyData e t evs)))
       \<lparr>visitors_unique := length (fst (foldl tally ([], emptyStats (startOfDay e t)) (dailyData e t evs))),
        visitors_total := length (dailyData e t evs)\<rparr>"
  by (simp add: statsUpdate_def Let_def case_prod_beta)

lemma statsUpdate_sdate: "sdate (statsUpdate e t evs) = startOfDay e t"
  by (simp add: statsUpdate_split fold_sdate emptyStats_def)

lemma statsUpdate_visitors_total:
  "visitors_total (statsUpdate e t evs) = card (groupKey ` set (dayEvents e t evs))"
  by (simp add: statsUpdate_split dailyData_def length_groupCount)

lemma statsUpdate_visitors_unique:
  "visitors_unique (statsUpdate e t evs) = card (\<Union>ev \<in> set (dayEvents e t evs). realIP (groupKey ev))"
proof -
  let ?r = "foldl tally ([], emptyStats (startOfDay e t)) (dailyData e t evs)"
  have d: "distinct (fst ?r)" by (rule fold_ips_distinct) simp
  have "set (fst ?r) = (\<Union>row \<in> set (dailyData e t evs). realIP (fst row))"
    by (simp add: fold_ips)
  also have "\<dots> = (\<Union>k \<in> fst ` set (dailyData e t evs). realIP k)" by blast
  also have "\<dots> = (\<Union>ev \<in> set (dayEvents e t evs). realIP (groupKey ev))"
    by (simp add: dailyData_def keys_groupCount)
  finally have "card (set (fst ?r)) = card (\<Union>ev \<in> set (dayEvents e t evs). realIP (groupKey ev))"
    by simp
  with d show ?thesis by (simp add: statsUpdate_split distinct_card)
qed

lemma statsUpdate_counts:
  "pageViews_total (statsUpdate e t evs) = length (filter (\<lambda>ev. etype ev = PageView) (dayEvents e t evs))"
  "contactForms (statsUpdate e t evs) = length (filter (\<lambda>ev. etype ev = ContactForm) (dayEvents e t evs))"
  "galleryViews (statsUpdate e t evs) = length (filter (\<lambda>ev. etype ev = GalleryView) (dayEvents e t evs))"
  "reviews (statsUpdate e t evs) = length (filter (\<lambda>ev. etype ev = ReviewSubmission) (dayEvents e t evs))"
  by (simp_all add: statsUpdate_split fold_pageViews_total fold_contactForms fold_galleryViews
      fold_reviews emptyStats_def dailyData_def weight_groupCount comp_def isType_def
      groupKey_def)

lemma statsUpdate_byPage:
  "pageViews_byPage (statsUpdate e t evs) p =
     (if filter (\<lambda>ev. pageHit p (groupKey ev)) (dayEvents e t evs) = [] then None
      else Some (length (filter (\<lambda>ev. pageHit p (groupKey ev)) (dayEvents e t evs))))"
proof -
  have ex: "list_ex (\<lambda>row. pageHit p (fst row)) (dailyData e t evs)
            \<longleftrightarrow> filter (\<lambda>ev. pageHit p (groupKey ev)) (dayEvents e t evs) \<noteq> []"
  proof -
    have "list_ex (\<lambda>row. pageHit p (fst row)) (dailyData e t evs)
          \<longleftrightarrow> (\<exists>k \<in> fst ` set (dailyData e t evs). pageHit p k)"
      by (auto simp: list_ex_iff)
    also have "\<dots> \<longleftrightarrow> (\<exists>ev \<in> set (dayEvents e t evs). pageHit p (groupKey ev))"
      by (simp add: dailyData_def keys_groupCount)
    also have "\<dots> \<longleftrightarrow> filter (\<lambda>ev. pageHit p (groupKey ev)) (dayEvents e t evs) \<noteq> []"
      by (simp add: filter_empty_conv)
    finally show ?thesis .
  qed
  show ?thesis
    using ex
    by (simp add: statsUpdate_split fold_byPage emptyStats_def)
       (simp add: dailyData_def weight_groupCount comp_def)
qed

lemma dayEvents_dayLog: "dayEvents calm 0 dayLog = dayLog"
  by (simp add: dayEvents_def startOfDay_def endOfDay_def calm_def msPerDay_def dayLog_def
      homeView_def formEvent_def)

text \<open>
  Claim C5, as stated, fails: on the log of the scenario the rows grouped by type, page
  and address are three (two for the page views, one for the contact form), so
  \<open>visitors_total\<close> is 3 and not 4.
\<close>

theorem rollup_scenario_total_counterexample:
  "visitors_total (statsUpdate calm 0 dayLog) = 3 \<and>
   visitors_total (statsUpdate calm 0 dayLog) \<noteq> 4"
proof -
  have "groupKey ` set dayLog = {(PageView, Some ''/home'', Some ''10.0.0.1''),
     (PageView, Some ''/home'', Some ''10.0.0.2''), (ContactForm, None, Some ''10.0.0.1'')}"
    by (auto simp: dayLog_def groupKey_def homeView_def formEvent_def)
  then have "visitors_total (statsUpdate calm 0 dayLog) = 3"
    by (simp add: statsUpdate_visitors_total dayEvents_dayLog)
  then show ?thesis by simp
qed

text \<open>
  Claim C5, amended: when the events of day D are three page views of \<^verbatim>\<open>/home\<close>, two from
  the address \<open>a\<close> and one from another address \<open>b\<close>, and one contact form, in any order,
  the rollup of D has \<open>visitors_total = 3\<close> (the number of rows grouped by type, page and
  address), \<open>visitors_unique = 2\<close> when the contact form has no address or one of the two
  (3 when it has a third one), 3 page views, 3 of them under \<open>home\<close>, and 1 contact form.
\<close>

theorem rollup_scenario:
  assumes day: "mset (dayEvents e D evs) = {#v1, v2, v3, f#}"
    and v1: "etype v1 = PageView \<and> page v1 = Some ''/home'' \<and> ipAddress v1 = Some a"
    and v2: "etype v2 = PageView \<and> page v2 = Some ''/home'' \<and> ipAddress v2 = Some a"
    and v3: "etype v3 = PageView \<and> page v3 = Some ''/home'' \<and> ipAddress v3 = Some b"
    and ips: "a \<noteq> b \<and> a \<noteq> [] \<and> b \<noteq> []"
    and f: "etype f = ContactForm"
  shows "visitors_total (statsUpdate e D evs) = 3 \<and>
         visitors_unique (statsUpdate e D evs) =
           (if ipAddress f \<in> {None, Some [], Some a, Some b} then 2 else 3) \<and>
         pageViews_total (statsUpdate e D evs) = 3 \<and>
         pageViews_byPage (statsUpdate e D evs) ''home'' = Some 3 \<and>
         contactForms (statsUpdate e D evs) = 1"
proof -
  have s: "set (dayEvents e D evs) = {v1, v2, v3, f}"
    using arg_cong [OF day, of set_mset] by simp
  have len: "\<And>P. length (filter P (dayEvents e D evs)) = size (filter_mset P {#v1, v2, v3, f#})"
    using day by (metis mset_filter size_mset)
  have home: "pageName ''/home'' = ''home''" by (simp add: pageName_def)
  have vt: "visitors_total (statsUpdate e D evs) = 3"
    using v1 v2 v3 ips f by (auto simp: statsUpdate_visitors_total s groupKey_def)
  have vu: "visitors_unique (statsUpdate e D evs) =
           (if ipAddress f \<in> {None, Some [], Some a, Some b} then 2 else 3)"
  proof -
    have u: "(\<Union>ev \<in> set (dayEvents e D evs). realIP (groupKey ev)) =
               {a, b} \<union> (case ipAddress f of None \<Rightarrow> {} | Some c \<Rightarrow> if c = [] then {} else {c})"
      using v1 v2 v3 ips by (auto simp: s groupKey_def realIP_def split: option.splits)
    show ?thesis
      unfolding statsUpdate_visitors_unique u using ips
      by (cases "ipAddress f") (auto simp: card_insert_if)
  qed
  have pt: "pageViews_total (statsUpdate e D evs) = 3"
    using v1 v2 v3 f by (simp add: statsUpdate_counts len)
  have cf: "contactForms (statsUpdate e D evs) = 1"
    using v1 v2 v3 f by (simp add: statsUpdate_counts len)
  have hits: "length (filter (\<lambda>ev. pageHit ''home'' (groupKey ev)) (dayEvents e D evs)) = 3"
    using v1 v2 v3 f by (simp add: len pageHit_def groupKey_def home objectPrototypeKeys_def)
  then have bp: "pageViews_byPage (statsUpdate e D evs) ''home'' = Some 3"
    by (auto simp: statsUpdate_byPage)
  show ?thesis using vt vu pt cf bp by simp
qed

theorem rollup_scenario_witness:
  "mset (dayEvents calm 0 dayLog) =
     {#homeView 1000 ''10.0.0.1'', homeView 2000 ''10.0.0.1'', homeView 3000 ''10.0.0.2'',
       formEvent 4000 ''10.0.0.1''#} \<and>
   visitors_total (statsUpdate calm 0 dayLog) = 3 \<and>
   visitors_unique (statsUpdate calm 0 dayLog) = 2 \<and>
   pageViews_total (statsUpdate calm 0 dayLog) = 3 \<and>
   pageViews_byPage (statsUpdate calm 0 dayLog) ''home'' = Some 3 \<and>
   contactForms (statsUpdate calm 0 dayLog) = 1"
proof -
  have m: "mset (dayEvents calm 0 dayLog) =
     {#homeView 1000 ''10.0.0.1'', homeView 2000 ''10.0.0.1'', homeView 3000 ''10.0.0.2'',
       formEvent 4000 ''10.0.0.1''#}"
    by (simp add: dayEvents_dayLog) (simp add: dayLog_def)
  have h: "etype (homeView 1000 ''10.0.0.1'') = PageView \<and> page (homeView 1000 ''10.0.0.1'') = Some ''/home'' \<and> ipAddress (homeView 1000 ''10.0.0.1'') = Some ''10.0.0.1''"
     "etype (homeView 2000 ''10.0.0.1'') = PageView \<and> page (homeView 2000 ''10.0.0.1'') = Some ''/home'' \<and> ipAddress (homeView 2000 ''10.0.0.1'') = Some ''10.0.0.1''"
     "etype (homeView 3000 ''10.0.0.2'') = PageView \<and> page (homeView 3000 ''10.0.0.2'') = Some ''/home'' \<and> ipAddress (homeView 3000 ''10.0.0.2'') = Some ''10.0.0.2''"
     "''10.0.0.1'' \<noteq> ''10.0.0.2'' \<and> ''10.0.0.1'' \<noteq> [] \<and> ''10.0.0.2'' \<noteq> []"
     "etype (formEvent 4000 ''10.0.0.1'') = ContactForm"
    by (simp_all add: homeView_def formEvent_def)
  have i: "ipAddress (formEvent 4000 ''10.0.0.1'') \<in> {None, Some [], Some ''10.0.0.1'', Some ''10.0.0.2''}"
    by (simp add: formEvent_def)
  show ?thesis
    using rollup_scenario [OF m h] m i by simp
qed

subsection \<open>The stored document\<close>











text \<open>Every time of a local day has the same local midnight, so a rollup for any of them
  writes to the document of the same date.\<close>

lemma startOfDay_same_day:
  assumes "startOfDay e D \<le> t" "t \<le> endOfDay e D"
  shows "startOfDay e t = startOfDay e D"
proof -
  define q where "q = (D + tzOffset e) div msPerDay"
  define r where "r = t - startOfDay e D"
  have M: "0 < msPerDay" by (simp add: msPerDay_def)
  have s: "startOfDay e D + tzOffset e = q * msPerDay"
    unfolding startOfDay_def q_def
    using minus_mod_eq_div_mult [of "D + tzOffset e" msPerDay] by simp
  have r: "0 \<le> r" "r < msPerDay"
    using assms by (simp_all add: r_def endOfDay_def)
  have "t + tzOffset e = r + q * msPerDay"
    using s by (simp add: r_def)
  then have "(t + tzOffset e) mod msPerDay = r"
    using r by simp
  then show ?thesis
    by (simp add: startOfDay_def [of e t] r_def)
qed

subsection \<open>The per-page breakdown\<close>

lemma bucket_castByPage:
  "bucket p (castByPage m) =
     (if p \<in> set schemaPages then Some (case m p of None \<Rightarrow> 0 | Some v \<Rightarrow> v) else None)"
  by (simp add: bucket_def castByPage_def schemaPages_def)

lemma findOneAndUpdate_fields:
  "s_byPage (fst (findOneAndUpdate e k u st)) = castByPage (pageViews_byPage u) \<and>
   s_pageViews_total (fst (findOneAndUpdate e k u st)) = pageViews_total u \<and>
   fst (findOneAndUpdate e k u st) \<in> set (snd (findOneAndUpdate e k u st))"
  by (induction st) (auto simp: applyUpdate_def insertDoc_def split: prod.splits)

lemma pageName_facts:
  "pageName (CHR ''/'' # s) = (if s = [] then ''home'' else s) \<and> pageName s \<noteq> []"
  by (simp add: pageName_def Let_def)

lemma dayEvents_mixedLog: "dayEvents calm 0 mixedLog = mixedLog"
  by (simp add: dayEvents_def startOfDay_def endOfDay_def calm_def msPerDay_def mixedLog_def
      pageView_def)

lemma mixedLog_counts:
  "length (filter (countedUnder ''home'') mixedLog) = 1 \<and>
   length (filter (countedUnder ''about'') mixedLog) = 2 \<and>
   length (filter (\<lambda>ev. etype ev = PageView) mixedLog) = 6"
  by (simp add: mixedLog_def pageView_def countedUnder_def pageName_def objectPrototypeKeys_def)

lemma dayEvents_blankLog: "dayEvents calm 0 blankLog = blankLog"
  by (simp add: dayEvents_def startOfDay_def endOfDay_def calm_def msPerDay_def blankLog_def
      blankView_def)

lemma statsUpdate_blankLog:
  "castUpdate (statsUpdate calm 0 blankLog) = stats_fields.truncate blankDoc"
proof -
  have k: "groupKey ` set blankLog = {(PageView, None, Some ''10.0.0.1''),
                                     (PageView, Some [], Some ''10.0.0.1'')}"
    by (auto simp: blankLog_def blankView_def groupKey_def)
  have 1: "sdate (statsUpdate calm 0 blankLog) = 0"
    by (simp add: statsUpdate_sdate startOfDay_def calm_def)
  have 2: "visitors_total (statsUpdate calm 0 blankLog) = 2"
    by (simp add: statsUpdate_visitors_total dayEvents_blankLog k)
  have 3: "visitors_unique (statsUpdate calm 0 blankLog) = 1"
    by (simp add: statsUpdate_visitors_unique dayEvents_blankLog realIP_def)
       (simp add: blankLog_def blankView_def groupKey_def)
  have 4: "pageViews_total (statsUpdate calm 0 blankLog) = 2"
    "contactForms (statsUpdate calm 0 blankLog) = 0"
    "galleryViews (statsUpdate calm 0 blankLog) = 0"
    "reviews (statsUpdate calm 0 blankLog) = 0"
    by (simp_all add: statsUpdate_counts dayEvents_blankLog)
       (simp_all add: blankLog_def blankView_def)
  have 5: "pageViews_byPage (statsUpdate calm 0 blankLog) p = None" for p
    by (simp add: statsUpdate_byPage dayEvents_blankLog)
       (simp add: blankLog_def blankView_def pageHit_def groupKey_def)
  show ?thesis
    by (simp add: castUpdate_def castByPage_def 1 2 3 4 5 blankDoc_def stats_fields.truncate_def)
qed

text \<open>
  Claim C6, as stated, fails: a page view whose page is absent or empty is counted in
  the total of the page views, but the guard \<^verbatim>\<open>if (item._id.page)\<close> keeps it out of the
  breakdown; it is not counted under \<open>home\<close>, whose bucket stays at 0.
\<close>

theorem byPage_blank_page_counterexample:
  "updateDailyStats calm 0 blankLog [] = Inr (blankDoc, [blankDoc]) \<and>
   s_pageViews_total blankDoc = 2 \<and>
   bucket ''home'' (s_byPage blankDoc) = Some 0"
proof -
  have "insertDoc calm (statsUpdate calm 0 blankLog) = blankDoc"
    using statsUpdate_blankLog
    by (simp add: insertDoc_def castUpdate_def blankDoc_def stats_fields.truncate_def calm_def)
  then show ?thesis
    by (simp add: updateDailyStats_def calm_def) (simp add: blankDoc_def bucket_def)
qed

text \<open>
  Claim C6, amended. When the store accepts the calls, the document that the rollup
  stores and returns has a bucket for exactly the seven pages of the schema
  (\<open>home\<close>, \<open>about\<close>, \<open>gallery\<close>, \<open>videos\<close>, \<open>contact\<close>, \<open>licenses\<close>, \<open>associations\<close>), and the
  bucket \<open>p\<close> holds the number of the day's page views whose page is not empty and has the
  page name \<open>p\<close>. The page name is the page with its first \<^verbatim>\<open>/\<close> removed, so the leading
  one of a path that starts with it, and \<open>home\<close> when nothing is left (the page \<^verbatim>\<open>/\<close>);
  it is never empty. A page view without a page, or with a page name that is not one of
  the seven, is in no bucket; every page view is counted in the total.
\<close>

theorem byPage_counts_schema_pages:
  assumes "\<not> analyticsReadFails e \<and> \<not> statsWriteFails e"
  shows "\<exists>doc store'.
           updateDailyStats e D evs store = Inr (doc, store') \<and> doc \<in> set store' \<and>
           (\<forall>p. bucket p (s_byPage doc) =
                  (if p \<in> set schemaPages
                   then Some (length (filter (countedUnder p) (dayEvents e D evs)))
                   else None)) \<and>
           s_pageViews_total doc =
             length (filter (\<lambda>ev. etype ev = PageView) (dayEvents e D evs)) \<and>
           (\<forall>s. pageName (CHR ''/'' # s) = (if s = [] then ''home'' else s) \<and> pageName s \<noteq> [])"
proof -
  let ?r = "findOneAndUpdate e (startOfDay e D) (statsUpdate e D evs) store"
  have 1: "updateDailyStats e D evs store = Inr (fst ?r, snd ?r)"
    using assms by (simp add: updateDailyStats_def)
  note f = findOneAndUpdate_fields [of e "startOfDay e D" "statsUpdate e D evs" store]
  have 2: "fst ?r \<in> set (snd ?r)" using f by blast
  have 3: "\<forall>p. bucket p (s_byPage (fst ?r)) =
                  (if p \<in> set schemaPages
                   then Some (length (filter (countedUnder p) (dayEvents e D evs)))
                   else None)"
  proof
    fix p
    have "(case pageViews_byPage (statsUpdate e D evs) p of None \<Rightarrow> 0 | Some v \<Rightarrow> v) =
            length (filter (countedUnder p) (dayEvents e D evs))"
      using statsUpdate_byPage [of e D evs p] by (simp add: pageHit_groupKey)
    then show "bucket p (s_byPage (fst ?r)) =
                  (if p \<in> set schemaPages
                   then Some (length (filter (countedUnder p) (dayEvents e D evs)))
                   else None)"
      using f by (simp add: bucket_castByPage)
  qed
  have 4: "s_pageViews_total (fst ?r) =
             length (filter (\<lambda>ev. etype ev = PageView) (dayEvents e D evs))"
    using f by (simp add: statsUpdate_counts)
  show ?thesis using 1 2 3 4 pageName_facts by blast
qed

theorem byPage_counts_schema_pages_witness:
  "(\<not> analyticsReadFails calm \<and> \<not> statsWriteFails calm) \<and>
   (\<exists>doc store'.
      updateDailyStats calm 0 mixedLog [] = Inr (doc, store') \<and> doc \<in> set store' \<and>
      bucket ''home'' (s_byPage doc) = Some 1 \<and>
      bucket ''about'' (s_byPage doc) = Some 2 \<and>
      bucket ''pricing'' (s_byPage doc) = None \<and>
      bucket ''gallery/1'' (s_byPage doc) = None \<and>
      bucket ''constructor'' (s_byPage doc) = None \<and>
      s_pageViews_total doc = 6)"
proof -
  have h: "\<not> analyticsReadFails calm \<and> \<not> statsWriteFails calm" by (simp add: calm_def)
  have s: "''home'' \<in> set schemaPages" "''about'' \<in> set schemaPages"
    "''pricing'' \<notin> set schemaPages" "''gallery/1'' \<notin> set schemaPages"
    "''constructor'' \<notin> set schemaPages"
    by (simp_all add: schemaPages_def)
  from byPage_counts_schema_pages [OF h, of 0 mixedLog "[]"]
  obtain doc store' where a: "updateDailyStats calm 0 mixedLog [] = Inr (doc, store')"
    "doc \<in> set store'"
    and b: "\<forall>p. bucket p (s_byPage doc) =
                  (if p \<in> set schemaPages
                   then Some (length (filter (countedUnder p) (dayEvents calm 0 mixedLog)))
                   else None)"
    and c: "s_pageViews_total doc =
             length (filter (\<lambda>ev. etype ev = PageView) (dayEvents calm 0 mixedLog))"
    by blast
  have 1: "bucket ''home'' (s_byPage doc) = Some 1" "bucket ''about'' (s_byPage doc) = Some 2"
    using b s mixedLog_counts by (simp_all add: dayEvents_mixedLog)
  have 2: "bucket ''pricing'' (s_byPage doc) = None" "bucket ''gallery/1'' (s_byPage doc) = None"
    "bucket ''constructor'' (s_byPage doc) = None"
    using b s by simp_all
  have 3: "s_pageViews_total doc = 6"
    using c mixedLog_counts by (simp add: dayEvents_mixedLog)
  show ?thesis using h a 1 2 3 by blast
qed

subsection \<open>Running the rollup twice\<close>



subsection \<open>Tracking a page view\<close>

text \<open>
  Claim C8, as stated, fails: when the write to the event log rejects, the handler does
  not answer with success; the rejection goes to \<^verbatim>\<open>next\<close>, that is to the error handler of
  the application, and the request fails.
\<close>

theorem trackPageView_failure_counterexample:
  "trackPageView logDown homeReq [] = (Next StoreError, []) \<and>
   fst (trackPageView logDown homeReq []) \<noteq> Json 200 Tracked"
  by (simp add: trackPageView_def Analytics_trackPageView_def logDown_def calm_def)

text \<open>
  Claim C8, amended: the handler awaits the write to the event log before it answers.
  When the write succeeds, the event is appended and the response is the success
  message; when it rejects, nothing is appended and the rejection is handed to \<^verbatim>\<open>next\<close>
  (the caller gets the error response).
\<close>

theorem trackPageView_awaits_write:
  "(\<not> analyticsWriteFails e \<longrightarrow>
      trackPageView e r evs = (Json 200 Tracked, evs @ [pageViewEvent e r])) \<and>
   (analyticsWriteFails e \<longrightarrow> trackPageView e r evs = (Next StoreError, evs))"
  by (simp add: trackPageView_def Analytics_trackPageView_def)

theorem trackPageView_awaits_write_witness:
  "\<not> analyticsWriteFails calm \<and>
   trackPageView calm homeReq [] = (Json 200 Tracked, [] @ [pageViewEvent calm homeReq]) \<and>
   analyticsWriteFails logDown \<and> trackPageView logDown homeReq [] = (Next StoreError, [])"
proof -
  have h: "\<not> analyticsWriteFails calm" "analyticsWriteFails logDown"
    by (simp_all add: calm_def logDown_def)
  show ?thesis
    using trackPageView_awaits_write [of calm homeReq "[]"]
      trackPageView_awaits_write [of logDown homeReq "[]"] h by blast
qed

subsection \<open>Generating a referral code\<close>

lemma upper_of_alnum: "isAlnum c \<Longrightarrow> isUpperAlnum (toUpperCase_char c)"
  unfolding isAlnum_def isUpperAlnum_def toUpperCase_char_def lowers_def uppers_def digits_def
  by (elim disjE | simp)+

lemma upper_of_base36: "isUpperAlnum (toUpperCase_char (base36 ! (n mod 36)))"
proof -
  have "n mod 36 < length base36" by (simp add: base36_def digits_def lowers_def)
  then have "base36 ! (n mod 36) \<in> set base36" by (rule nth_mem)
  then have "isAlnum (base36 ! (n mod 36))"
    by (auto simp: isAlnum_def base36_def)
  then show ?thesis by (rule upper_of_alnum)
qed

lemma cleanName_chars: "list_all isUpperAlnum (cleanName n)"
proof -
  have "list_all isUpperAlnum (toUpperCase (filter isAlnum n))"
    by (induction n) (simp_all add: toUpperCase_def upper_of_alnum)
  then show ?thesis
    unfolding cleanName_def list_all_iff using in_set_takeD by fastforce
qed

lemma cleanName_length: "length (cleanName n) \<le> 8"
  by (simp add: cleanName_def)

lemma randomSuffix_chars: "list_all isUpperAlnum (randomSuffix rnd)"
proof (cases "rnd = []")
  case True
  then show ?thesis by (simp add: randomSuffix_def toString36_def substring_2_5_def toUpperCase_def)
next
  case False
  then have "randomSuffix rnd = map (\<lambda>n. toUpperCase_char (base36 ! (n mod 36))) (take 3 rnd)"
    by (simp add: randomSuffix_def toString36_def substring_2_5_def toUpperCase_def take_map)
  then show ?thesis by (simp add: list_all_iff upper_of_base36)
qed

lemma randomSuffix_length: "length (randomSuffix rnd) \<le> 3"
  by (simp add: randomSuffix_def substring_2_5_def toUpperCase_def)

lemma generatePartnerCode_shape:
  "take 6 (generatePartnerCode n rnd) = ''TWBFL-'' \<and>
   list_all isUpperAlnum (drop 6 (generatePartnerCode n rnd))"
  by (simp add: generatePartnerCode_def cleanName_chars randomSuffix_chars)

lemma tryCodes_exhausted: "\<not> attempts < maxAttempts \<Longrightarrow> tryCodes rnd n ps attempts = None"
  by (subst tryCodes.simps) simp

lemma tryCodes_free:
  "attempts < maxAttempts \<Longrightarrow>
   find (\<lambda>p. code p = Some (generatePartnerCode n (rnd attempts))) ps = None \<Longrightarrow>
   tryCodes rnd n ps attempts = Some (generatePartnerCode n (rnd attempts))"
  by (subst tryCodes.simps) (simp add: Let_def)

lemma tryCodes_used:
  "attempts < maxAttempts \<Longrightarrow>
   find (\<lambda>p. code p = Some (generatePartnerCode n (rnd attempts))) ps \<noteq> None \<Longrightarrow>
   tryCodes rnd n ps attempts = tryCodes rnd n ps (attempts + 1)"
  by (subst tryCodes.simps) (auto simp: Let_def)

lemma tryCodes_Some:
  "tryCodes rnd n ps a = Some c \<Longrightarrow>
   \<exists>i. a \<le> i \<and> i < maxAttempts \<and> c = generatePartnerCode n (rnd i) \<and>
       find (\<lambda>p. code p = Some c) ps = None"
proof (induction rnd n ps a rule: tryCodes.induct)
  case (1 rnd n ps attempts)
  show ?case
  proof (cases "attempts < maxAttempts")
    case False
    with "1.prems" show ?thesis by (simp add: tryCodes_exhausted)
  next
    case True
    show ?thesis
    proof (cases "find (\<lambda>p. code p = Some (generatePartnerCode n (rnd attempts))) ps = None")
      case free: True
      with True "1.prems" have "c = generatePartnerCode n (rnd attempts)"
        by (simp add: tryCodes_free)
      with True free show ?thesis by auto
    next
      case used: False
      with True "1.prems" have "tryCodes rnd n ps (attempts + 1) = Some c"
        by (simp add: tryCodes_used)
      from "1.IH" [OF True refl used this]
      obtain i where i: "attempts + 1 \<le> i" "i < maxAttempts" "c = generatePartnerCode n (rnd i)"
        "find (\<lambda>p. code p = Some c) ps = None" by blast
      from i(1) have "attempts \<le> i" by simp
      with i show ?thesis by blast
    qed
  qed
qed

lemma tryCodes_None:
  "tryCodes rnd n ps a = None \<longleftrightarrow>
   (\<forall>i. a \<le> i \<and> i < maxAttempts \<longrightarrow>
        find (\<lambda>p. code p = Some (generatePartnerCode n (rnd i))) ps \<noteq> None)"
proof (induction rnd n ps a rule: tryCodes.induct)
  case (1 rnd n ps attempts)
  let ?used = "\<lambda>i. find (\<lambda>p. code p = Some (generatePartnerCode n (rnd i))) ps \<noteq> None"
  show ?case
  proof (cases "attempts < maxAttempts")
    case False
    then have v: "\<And>i. \<not> (attempts \<le> i \<and> i < maxAttempts)" by linarith
    have "tryCodes rnd n ps attempts = None" using False by (rule tryCodes_exhausted)
    with v show ?thesis by blast
  next
    case True
    show ?thesis
    proof (cases "?used attempts")
      case free: False
      with True have "tryCodes rnd n ps attempts \<noteq> None" by (simp add: tryCodes_free)
      moreover have "attempts \<le> attempts \<and> attempts < maxAttempts" using True by simp
      ultimately show ?thesis using free by blast
    next
      case used: True
      with True have eq: "tryCodes rnd n ps attempts = tryCodes rnd n ps (attempts + 1)"
        by (simp add: tryCodes_used)
      have ih: "tryCodes rnd n ps (attempts + 1) = None \<longleftrightarrow>
                (\<forall>i. attempts + 1 \<le> i \<and> i < maxAttempts \<longrightarrow> ?used i)"
        using "1.IH" [OF True refl] used by blast
      have "(\<forall>i. attempts + 1 \<le> i \<and> i < maxAttempts \<longrightarrow> ?used i) \<longleftrightarrow>
            (\<forall>i. attempts \<le> i \<and> i < maxAttempts \<longrightarrow> ?used i)"
      proof
        assume a: "\<forall>i. attempts + 1 \<le> i \<and> i < maxAttempts \<longrightarrow> ?used i"
        show "\<forall>i. attempts \<le> i \<and> i < maxAttempts \<longrightarrow> ?used i"
        proof (intro allI impI)
          fix i assume i: "attempts \<le> i \<and> i < maxAttempts"
          show "?used i"
          proof (cases "i = attempts")
            case True
            with used show ?thesis by simp
          next
            case False
            with i have "attempts + 1 \<le> i \<and> i < maxAttempts" by linarith
            with a show ?thesis by blast
          qed
        qed
      next
        assume a: "\<forall>i. attempts \<le> i \<and> i < maxAttempts \<longrightarrow> ?used i"
        show "\<forall>i. attempts + 1 \<le> i \<and> i < maxAttempts \<longrightarrow> ?used i"
        proof (intro allI impI)
          fix i assume "attempts + 1 \<le> i \<and> i < maxAttempts"
          then have "attempts \<le> i \<and> i < maxAttempts" by linarith
          with a show "?used i" by blast
        qed
      qed
      with ih eq show ?thesis by simp
    qed
  qed
qed

lemma find_None_iff_code:
  "find (\<lambda>p. code p = Some c) ps = None \<longleftrightarrow> (\<forall>q \<in> set ps. code q \<noteq> Some c)"
  by (auto simp: find_None_iff)

lemma generatePartnerCode_long_name: "generatePartnerCode ''Jane Doe Smith'' [10, 11, 12] = ''TWBFL-JANEDOESABC''"
  by (simp add: generatePartnerCode_def cleanName_def randomSuffix_def toString36_def
      substring_2_5_def toUpperCase_def toUpperCase_char_def isAlnum_def base36_def
      lowers_def uppers_def digits_def)

lemma generatePartnerCode_short_name: "generatePartnerCode ''Jo'' [4, 2, 3] = ''TWBFL-JO423''"
  by (simp add: generatePartnerCode_def cleanName_def randomSuffix_def toString36_def
      substring_2_5_def toUpperCase_def toUpperCase_char_def isAlnum_def base36_def
      lowers_def uppers_def digits_def)

lemma matches_JO424: "matchesCodePattern ''TWBFL-JO424''"
  by (simp add: matchesCodePattern_def isUpperAlnum_def uppers_def digits_def)

lemma not_matches_long: "\<not> matchesCodePattern ''TWBFL-JANEDOESABC''"
  by (simp add: matchesCodePattern_def)

text \<open>
  The hook on its own, for a document that reaches it without a code and with a
  non-empty name: it succeeds exactly when one of the ten drawn candidates is the code of
  no partner, and fails when all ten are taken. The code it assigns is one of the drawn
  candidates, begins with \<^verbatim>\<open>TWBFL-\<close>, has only characters of \<^verbatim>\<open>[A-Z0-9]\<close> after it and
  differs from the code of every partner of the store.
\<close>

lemma preSave_assigns_unused_code:
  assumes "\<not> truthy (code p)" and "name p \<noteq> []"
  shows "((\<forall>i<maxAttempts. \<exists>q \<in> set ps. code q = Some (generatePartnerCode (name p) (rnd i)))
            \<longrightarrow> preSave rnd ps p = Inl CodeGenerationFailed) \<and>
         ((\<exists>i<maxAttempts. \<forall>q \<in> set ps. code q \<noteq> Some (generatePartnerCode (name p) (rnd i)))
            \<longrightarrow> (\<exists>c i. preSave rnd ps p = Inr (p\<lparr>code := Some c\<rparr>) \<and>
                      i < maxAttempts \<and> c = generatePartnerCode (name p) (rnd i) \<and>
                      take 6 c = ''TWBFL-'' \<and> list_all isUpperAlnum (drop 6 c) \<and>
                      (\<forall>q \<in> set ps. code q \<noteq> Some c)))"
proof (intro conjI impI)
  assume all: "\<forall>i<maxAttempts. \<exists>q \<in> set ps. code q = Some (generatePartnerCode (name p) (rnd i))"
  have "tryCodes rnd (name p) ps 0 = None"
    unfolding tryCodes_None using all by (auto simp: find_None_iff_code)
  with assms show "preSave rnd ps p = Inl CodeGenerationFailed"
    by (simp add: preSave_def)
next
  assume ex: "\<exists>i<maxAttempts. \<forall>q \<in> set ps. code q \<noteq> Some (generatePartnerCode (name p) (rnd i))"
  have "tryCodes rnd (name p) ps 0 \<noteq> None"
    unfolding tryCodes_None using ex by (auto simp: find_None_iff_code)
  then obtain c where c: "tryCodes rnd (name p) ps 0 = Some c" by blast
  from tryCodes_Some [OF c] obtain i where i: "i < maxAttempts"
    "c = generatePartnerCode (name p) (rnd i)" "find (\<lambda>p. code p = Some c) ps = None" by blast
  from i(3) have free: "\<forall>q \<in> set ps. code q \<noteq> Some c" by (simp add: find_None_iff_code)
  have "preSave rnd ps p = Inr (p\<lparr>code := Some c\<rparr>)"
    using assms c by (simp add: preSave_def)
  with i free generatePartnerCode_shape [of "name p" "rnd i"]
  show "\<exists>c i. preSave rnd ps p = Inr (p\<lparr>code := Some c\<rparr>) \<and>
                      i < maxAttempts \<and> c = generatePartnerCode (name p) (rnd i) \<and>
                      take 6 c = ''TWBFL-'' \<and> list_all isUpperAlnum (drop 6 c) \<and>
                      (\<forall>q \<in> set ps. code q \<noteq> Some c)"
    by blast
qed

text \<open>
  No document without a code gets as far as the hook: the path \<^verbatim>\<open>code\<close> is required, and
  validation comes before the hook.
\<close>

lemma Partner_create_needs_code:
  "code p = None \<Longrightarrow>
   Partner_create rnd p ps = Inl (ValidationError (validatePartner (p\<lparr>name := trim (name p)\<rparr>)))
   \<and> ''Path `code` is required.'' \<in> set (validatePartner (p\<lparr>name := trim (name p)\<rparr>))"
  by (simp add: Partner_create_def validatePartner_def Let_def)

text \<open>
  \<^verbatim>\<open>createPartner\<close> never passes a code, so it never creates a partner: no request gets the
  response 201, and the store is left as it was.
\<close>

lemma createPartner_never_creates:
  "fst (createPartner e rnd r ps) \<noteq> Json 201 (PartnerCreated p) \<and>
   snd (createPartner e rnd r ps) = ps"
proof -
  have nc: "\<And>q. code q = None \<Longrightarrow> \<exists>ms. Partner_create rnd q ps = Inl (ValidationError ms)"
    using Partner_create_needs_code by blast
  show ?thesis
  proof (cases "b_name r")
    case None then show ?thesis by (simp add: createPartner_def)
  next
    case n: (Some n)
    show ?thesis
    proof (cases "b_type r")
      case None with n show ?thesis by (simp add: createPartner_def)
    next
      case ty: (Some ty)
      show ?thesis
      proof (cases "b_email r")
        case None with n ty show ?thesis by (simp add: createPartner_def)
      next
        case m: (Some m)
        let ?doc = "\<lparr>pid = freshPid ps, name = trim n, ptype = ty,
                        email = trim (toLowerCase m), code = None, active = True,
                        totalLeads = 0, totalTours = 0, totalBookings = 0,
                        lastActivityAt = now e\<rparr>"
        from nc [of ?doc] obtain ms where "Partner_create rnd ?doc ps = Inl (ValidationError ms)"
          by auto
        with n ty m show ?thesis by (simp add: createPartner_def)
      qed
    qed
  qed
qed

text \<open>
  Claim C3 at its failing input. The request to create the partner ``Jane Doe Smith''
  (a valid name, type and e-mail address, an empty store) is answered with 400 and the
  message of the required path \<^verbatim>\<open>code\<close>: no code is generated and no partner is created,
  where the claim has the creation succeed with a generated code. And the generator
  misses the pattern by itself: run on its own for this name with the draw a, b, c, the
  hook assigns \<^verbatim>\<open>TWBFL-JANEDOESABC\<close>, eleven characters after the prefix, which the
  schema's validator of the code rejects.
\<close>

theorem createPartner_rejects_every_creation:
  "createPartner calm drawABC janeReq [] = (Json 400 (PartnerFailure ''Path `code` is required.''), []) \<and>
   preSave drawABC [] (newPartner ''Jane Doe Smith'')
     = Inr ((newPartner ''Jane Doe Smith'')\<lparr>code := Some ''TWBFL-JANEDOESABC''\<rparr>) \<and>
   \<not> matchesCodePattern ''TWBFL-JANEDOESABC'' \<and>
   validatePartner ((newPartner ''Jane Doe Smith'')\<lparr>code := Some ''TWBFL-JANEDOESABC''\<rparr>)
     = [''Code must follow TWBFL-XXXXX format'']"
proof -
  have t: "trim ''Jane Doe Smith'' = ''Jane Doe Smith''"
    by (simp add: trim_def isSpace_def)
  have 1: "createPartner calm drawABC janeReq [] = (Json 400 (PartnerFailure ''Path `code` is required.''), [])"
    by (simp add: createPartner_def janeReq_def calm_def Partner_create_def validatePartner_def
        Let_def t joinMessages_def)
  have a: "tryCodes drawABC ''Jane Doe Smith'' [] 0 = Some ''TWBFL-JANEDOESABC''"
    using tryCodes_free [of 0 "''Jane Doe Smith''" drawABC "[]"]
    by (simp add: maxAttempts_def drawABC_def generatePartnerCode_long_name)
  have 2: "preSave drawABC [] (newPartner ''Jane Doe Smith'')
     = Inr ((newPartner ''Jane Doe Smith'')\<lparr>code := Some ''TWBFL-JANEDOESABC''\<rparr>)"
    using a by (simp add: preSave_def newPartner_def truthy_def)
  have 3: "validatePartner ((newPartner ''Jane Doe Smith'')\<lparr>code := Some ''TWBFL-JANEDOESABC''\<rparr>)
     = [''Code must follow TWBFL-XXXXX format'']"
    using not_matches_long by (simp add: validatePartner_def newPartner_def)
  show ?thesis using 1 2 3 not_matches_long by simp
qed

subsection \<open>The filled time series\<close>














end
